theory Spec2Isabelle
  imports Complex_Main "HOL-Library.Product_Lexorder"
begin

section \<open>Data model\<close>

text \<open>
  The module \<^verbatim>\<open>seismic/cluster/cluster.py\<close> prepares travel-time observations for a
  tomographic inversion. Its rows have the twelve columns of \<^verbatim>\<open>column_names\<close>, in that
  order. Block numbers, the event number and the phase code are Python integers
  (\<open>int\<close>); the remaining columns are binary64 floating-point numbers. A finite
  binary64 value is the real number it stands for; NaN and the infinities are not
  values of a column here, and an infinite result of an operation is \<open>None\<close>.
\<close>

record ArrivalRow =
  source_block :: int
  station_block :: int
  residual :: real
  event_number :: int
  source_longitude :: real
  source_latitude :: real
  source_depth :: real
  station_longitude :: real
  station_latitude :: real
  observed_tt :: real
  locations2degrees :: real
  P_or_S :: int

text \<open>The exceptions the modelled code can raise.\<close>

datatype error = ValueError | ZeroDivisionError | AttributeError | OverflowError

text \<open>The two-column key \<^verbatim>\<open>['source_block', 'station_block']\<close> used by \<^verbatim>\<open>sort\<close> and \<^verbatim>\<open>match\<close>.\<close>

type_synonym block_key = "int \<times> int"

definition key :: "ArrivalRow \<Rightarrow> block_key" where
  "key r = (source_block r, station_block r)"

section \<open>Binary64 arithmetic\<close>

text \<open>
  Python 3's \<^verbatim>\<open>round(x)\<close> of a float: the nearest integer, a tie going to the even one.
  (Python 2 sends a tie away from zero; nothing proved below rests on how a tie goes.)
\<close>

definition py_round :: "real \<Rightarrow> int" where
  "py_round x =
     (let f = \<lfloor>x\<rfloor>; d = x - of_int f in
      if d < 1 / 2 then f else if 1 / 2 < d then f + 1 else if even f then f else f + 1)"

text \<open>
  The binary exponent of a positive number: the \<open>e\<close> with \<open>2 ^ e \<le> x < 2 ^ (e + 1)\<close>,
  found by halving or doubling.
\<close>

function b64_exponent :: "real \<Rightarrow> int" where
  "b64_exponent x =
     (if 2 \<le> x then b64_exponent (x / 2) + 1
      else if 0 < x \<and> x < 1 then b64_exponent (2 * x) - 1
      else 0)"
  by pat_completeness auto
termination
proof (relation "measure (\<lambda>x. 2 * nat \<lceil>1 / x\<rceil> + nat \<lfloor>x\<rfloor>)")
  show "wf (measure (\<lambda>x. 2 * nat \<lceil>1 / x\<rceil> + nat \<lfloor>x\<rfloor>))" by simp
next
  fix x :: real
  assume x: "2 \<le> x"
  have a: "\<lceil>1 / x\<rceil> = 1" using x by (simp add: ceiling_eq_iff)
  have b: "\<lceil>1 / (x / 2)\<rceil> = 1" using x by (simp add: ceiling_eq_iff)
  have "x / 2 \<le> x - 1" using x by simp
  then have "\<lfloor>x / 2\<rfloor> \<le> \<lfloor>x - 1\<rfloor>" by (rule floor_mono)
  then have c: "\<lfloor>x / 2\<rfloor> < \<lfloor>x\<rfloor>" by simp
  have "0 < \<lfloor>x\<rfloor>" using x by simp
  with c have d: "nat \<lfloor>x / 2\<rfloor> < nat \<lfloor>x\<rfloor>" by linarith
  show "(x / 2, x) \<in> measure (\<lambda>x. 2 * nat \<lceil>1 / x\<rceil> + nat \<lfloor>x\<rfloor>)"
    unfolding in_measure a b using d by simp
next
  fix x :: real
  assume "\<not> 2 \<le> x" and x: "0 < x \<and> x < 1"
  let ?c = "\<lceil>1 / x\<rceil>"
  have y: "1 < 1 / x" using x by simp
  then have c2: "2 \<le> ?c" by (simp add: le_ceiling_iff)
  have "1 / x \<le> of_int ?c" by (rule le_of_int_ceiling)
  then have "1 / (2 * x) \<le> of_int ?c / 2" by simp
  also have "\<dots> \<le> of_int (?c - 1)" using c2 by simp
  finally have "\<lceil>1 / (2 * x)\<rceil> \<le> ?c - 1" by (rule ceiling_le)
  moreover have "\<lfloor>2 * x\<rfloor> \<le> 1" using x by (simp add: floor_le_iff)
  moreover have "0 \<le> \<lfloor>2 * x\<rfloor>" using x by simp
  ultimately have "2 * nat \<lceil>1 / (2 * x)\<rceil> + nat \<lfloor>2 * x\<rfloor> < 2 * nat ?c + nat \<lfloor>x\<rfloor>"
    using c2 by linarith
  then show "(2 * x, x) \<in> measure (\<lambda>x. 2 * nat \<lceil>1 / x\<rceil> + nat \<lfloor>x\<rfloor>)"
    unfolding in_measure .
qed

declare b64_exponent.simps [simp del]

definition pow2 :: "int \<Rightarrow> real" where
  "pow2 e = (if 0 \<le> e then 2 ^ nat e else 1 / 2 ^ nat (- e))"

text \<open>
  Rounding of a real number to binary64, to nearest with a tie going to the even
  significand. A normal number has 53 significant bits, so its last place is 52 binary
  places below its exponent; below \<open>2 ^ -1022\<close> the last place stays at \<open>2 ^ -1074\<close>
  (subnormal numbers, and zero). A result of magnitude \<open>2 ^ 1024\<close> or more is infinite:
  \<open>None\<close>. Every float operation of the code is the exact operation followed by this
  rounding.
\<close>

definition b64 :: "real \<Rightarrow> real option" where
  "b64 x =
     (if x = 0 then Some 0
      else let q = pow2 (max (b64_exponent \<bar>x\<bar>) (- 1022) - 52);
               r = of_int (py_round (x / q)) * q
           in if 2 ^ 1024 \<le> \<bar>r\<bar> then None else Some r)"

text \<open>
  The mean of two values as the median takes it: their sum, then the sum divided by
  two, each rounded. An infinite sum stays infinite.
\<close>

definition b64_mean2 :: "real \<Rightarrow> real \<Rightarrow> real option" where
  "b64_mean2 a b = (case b64 (a + b) of None \<Rightarrow> None | Some s \<Rightarrow> b64 (s / 2))"

section \<open>The sort command: median filter per block pair\<close>

text \<open>
  \<^verbatim>\<open>cluster_data.sort_values(by=['source_block', 'station_block'], inplace=True)\<close>.
  A sort on several columns is a lexicographic sort of the key tuples that keeps rows
  with equal keys in their order in the frame.
\<close>

definition sort_values :: "ArrivalRow list \<Rightarrow> ArrivalRow list" where
  "sort_values df = sort_key key df"

text \<open>
  \<^verbatim>\<open>cluster_data.groupby(by=['source_block', 'station_block'])\<close>, iterated: one
  \<open>(key, group)\<close> pair per distinct key, in ascending key order; a group holds the rows
  of the frame with that key, in frame order.
\<close>

definition groupby :: "ArrivalRow list \<Rightarrow> (block_key \<times> ArrivalRow list) list" where
  "groupby df = map (\<lambda>k. (k, filter (\<lambda>r. key r = k) df)) (sort (remdups (map key df)))"

text \<open>
  \<^verbatim>\<open>Series.median()\<close>: the middle value of the sorted values, or the binary64 mean of
  the two middle values when their number is even. The median of no values is NaN and
  an overflowing mean is infinite; both compare unequal to every value of a column:
  they are \<open>None\<close> here.
\<close>

definition median :: "real list \<Rightarrow> real option" where
  "median xs =
     (let s = sort xs; n = length s in
      if n = 0 then None
      else if odd n then Some (s ! (n div 2))
      else b64_mean2 (s ! (n div 2 - 1)) (s ! (n div 2)))"

text \<open>The loop body: \<^verbatim>\<open>group[group['observed_tt'] == med][:1]\<close>.\<close>

definition keep_of :: "ArrivalRow list \<Rightarrow> ArrivalRow list" where
  "keep_of grp =
     (let med = median (map observed_tt grp) in
      take 1 (filter (\<lambda>r. Some (observed_tt r) = med) grp))"

text \<open>\<^verbatim>\<open>pd.concat(keep)\<close> raises \<^verbatim>\<open>ValueError\<close> (no objects to concatenate) on an empty list.\<close>

definition pd_concat :: "'a list list \<Rightarrow> error + 'a list" where
  "pd_concat objs = (if objs = [] then Inl ValueError else Inr (concat objs))"

text \<open>
  The command \<^verbatim>\<open>sort\<close>, from the rows read to the frame written (\<open>final_df\<close>). The
  name \<open>sort\<close> is taken by the list library.
\<close>

definition sort_cmd :: "ArrivalRow list \<Rightarrow> error + ArrivalRow list" where
  "sort_cmd rows =
     (let cluster_data = sort_values rows;
          groups = groupby cluster_data;
          keep = map (\<lambda>(_, grp). keep_of grp) groups
      in pd_concat keep)"

text \<open>
  The row transformation of the command applied to its own result; an exception of the
  first run propagates. (The file the command writes has a header line and an index
  column, which its own reader does not expect: the composition is one of row sets,
  not of the command line.)
\<close>

definition sort_twice :: "ArrivalRow list \<Rightarrow> error + ArrivalRow list" where
  "sort_twice rows = (case sort_cmd rows of Inl e \<Rightarrow> Inl e | Inr out \<Rightarrow> sort_cmd out)"

text \<open>A row with a given key and travel time, the other columns zero: test data.\<close>

definition mk_row :: "int \<Rightarrow> int \<Rightarrow> real \<Rightarrow> ArrivalRow" where
  "mk_row sb stb tt =
     \<lparr>source_block = sb, station_block = stb, residual = 0, event_number = 0,
      source_longitude = 0, source_latitude = 0, source_depth = 0,
      station_longitude = 0, station_latitude = 0, observed_tt = tt,
      locations2degrees = 0, P_or_S = 1\<rparr>"

section \<open>The match command: block pairs present for both phases\<close>

text \<open>
  \<^verbatim>\<open>pd.merge(left, right, how='inner', on=['source_block', 'station_block'])\<close>: one
  result row for every pair of a left row and a right row with equal keys, here as the
  pair itself. Where no key occurs twice on either side, which is the case the
  command is meant for, the result follows the order of the left rows.
\<close>

definition merge_inner ::
  "('a \<Rightarrow> block_key) \<Rightarrow> ('b \<Rightarrow> block_key) \<Rightarrow> 'a list \<Rightarrow> 'b list \<Rightarrow> ('a \<times> 'b) list" where
  "merge_inner kl kr left right =
     concat (map (\<lambda>l. map (\<lambda>r. (l, r)) (filter (\<lambda>r. kr r = kl l) right)) left)"

text \<open>
  The command \<^verbatim>\<open>match\<close>, from the two frames read to the two frames written. \<open>blocks\<close>
  has the two key columns only, so a merge with it adds no column, and the selection
  \<^verbatim>\<open>[column_names]\<close> leaves the twelve columns of a row as they are.
\<close>

definition match :: "ArrivalRow list \<Rightarrow> ArrivalRow list \<Rightarrow> ArrivalRow list \<times> ArrivalRow list" where
  "match p_arr s_arr =
     (let blocks = map (\<lambda>(l, r). key l) (merge_inner key key p_arr s_arr);
          matched_P = map fst (merge_inner key id p_arr blocks);
          matched_S = map fst (merge_inner key id s_arr blocks)
      in (matched_P, matched_S))"

section \<open>Block numbers\<close>

text \<open>Python's \<^verbatim>\<open>int(x)\<close> of a float truncates towards zero.\<close>

definition py_int :: "real \<Rightarrow> int" where
  "py_int x = (if 0 \<le> x then \<lfloor>x\<rfloor> else \<lceil>x\<rceil>)"

text \<open>Float division raises \<^verbatim>\<open>ZeroDivisionError\<close> on a zero divisor.\<close>

definition py_div :: "real \<Rightarrow> real \<Rightarrow> error + real" where
  "py_div a b = (if b = 0 then Inl ZeroDivisionError else Inr (a / b))"

text \<open>The right-hand side of \<^verbatim>\<open>x = lon if lon > 0 else lon + 360.0\<close> in \<^verbatim>\<open>_find_block\<close>.\<close>

definition norm_lon :: "real \<Rightarrow> real" where
  "norm_lon lon = (if lon > 0 then lon else lon + 360)"

text \<open>
  \<^verbatim>\<open>_find_block(dx, dy, dz, nx, ny, lat, lon, z)\<close>, with the differences and quotients
  taken exactly. An identifier cannot start with an underscore here. The three
  divisions are evaluated in the order of the source. This is the block number of the
  gathering stage below, whose properties rest on the order of the steps and on the
  signs of the quotients; the block number with every operation rounded to binary64
  is \<open>find_block_b64\<close>.
\<close>

definition find_block ::
  "real \<Rightarrow> real \<Rightarrow> real \<Rightarrow> int \<Rightarrow> int \<Rightarrow> real \<Rightarrow> real \<Rightarrow> real \<Rightarrow> error + int" where
  "find_block dx dy dz nx ny lat lon z =
     (let y = 90 - lat;
          x = norm_lon lon
      in case py_div x dx of Inl e \<Rightarrow> Inl e | Inr qx \<Rightarrow>
         let i = py_round qx + 1 in
         case py_div y dy of Inl e \<Rightarrow> Inl e | Inr qy \<Rightarrow>
         let j = py_round qy + 1 in
         case py_div z dz of Inl e \<Rightarrow> Inl e | Inr qz \<Rightarrow>
         let k = py_round qz + 1;
             block_number = (k - 1) * nx * ny + (j - 1) * nx + i
         in Inr block_number)"

text \<open>
  \<^verbatim>\<open>round(x / d)\<close> in binary64, for an \<open>x\<close> that may be infinite. Float division raises
  \<^verbatim>\<open>ZeroDivisionError\<close> on a zero divisor, whatever the dividend; an infinite quotient is
  no error of the division, but \<^verbatim>\<open>round\<close> raises \<^verbatim>\<open>OverflowError\<close> on it.
\<close>

definition round_quotient :: "real option \<Rightarrow> real \<Rightarrow> error + int" where
  "round_quotient x d =
     (if d = 0 then Inl ZeroDivisionError
      else case x of
             None \<Rightarrow> Inl OverflowError
           | Some v \<Rightarrow> (case b64 (v / d) of
                         None \<Rightarrow> Inl OverflowError
                       | Some q \<Rightarrow> Inr (py_round q)))"

text \<open>
  \<^verbatim>\<open>_find_block\<close> in binary64: \<^verbatim>\<open>90. - lat\<close>, \<^verbatim>\<open>lon + 360.0\<close> and the three quotients are
  rounded; the block number itself is computed with Python's unbounded integers. The
  arguments other than \<open>nx\<close> and \<open>ny\<close> are finite binary64 values.
\<close>

definition find_block_b64 ::
  "real \<Rightarrow> real \<Rightarrow> real \<Rightarrow> int \<Rightarrow> int \<Rightarrow> real \<Rightarrow> real \<Rightarrow> real \<Rightarrow> error + int" where
  "find_block_b64 dx dy dz nx ny lat lon z =
     (let y = b64 (90 - lat);
          x = (if lon > 0 then Some lon else b64 (lon + 360))
      in case round_quotient x dx of Inl e \<Rightarrow> Inl e | Inr rx \<Rightarrow>
         let i = rx + 1 in
         case round_quotient y dy of Inl e \<Rightarrow> Inl e | Inr ry \<Rightarrow>
         let j = ry + 1 in
         case round_quotient (Some z) dz of Inl e \<Rightarrow> Inl e | Inr rz \<Rightarrow>
         let k = rz + 1;
             block_number = (k - 1) * nx * ny + (j - 1) * nx + i
         in Inr block_number)"

text \<open>
  \<^verbatim>\<open>360. / nx\<close> and \<^verbatim>\<open>180. / ny\<close> in \<^verbatim>\<open>process_event\<close>: the integer is converted to
  binary64 first, which raises \<^verbatim>\<open>OverflowError\<close> when it is too large; then the division,
  which raises on zero. The quotient of 360 or 180 by a non-zero integer is never
  infinite (\<open>grid_step_finite\<close> below).
\<close>

definition grid_step :: "real \<Rightarrow> int \<Rightarrow> error + real" where
  "grid_step a n =
     (case b64 (of_int n) of
        None \<Rightarrow> Inl OverflowError
      | Some d \<Rightarrow>
          if d = 0 then Inl ZeroDivisionError
          else case b64 (a / d) of None \<Rightarrow> Inl OverflowError | Some q \<Rightarrow> Inr q)"

text \<open>
  The block number of a point as \<^verbatim>\<open>process_event\<close> computes it from the grid
  specification: \<^verbatim>\<open>dx = 360. / nx\<close>, \<^verbatim>\<open>dy = 180. / ny\<close> and the call of \<^verbatim>\<open>_find_block\<close>, in
  binary64.
\<close>

definition block_id :: "int \<Rightarrow> int \<Rightarrow> real \<Rightarrow> real \<Rightarrow> real \<Rightarrow> real \<Rightarrow> error + int" where
  "block_id nx ny dz lat lon z =
     (case grid_step 360 nx of Inl e \<Rightarrow> Inl e | Inr dx \<Rightarrow>
      case grid_step 180 ny of Inl e \<Rightarrow> Inl e | Inr dy \<Rightarrow>
      find_block_b64 dx dy dz nx ny lat lon z)"

section \<open>Gathering arrivals\<close>

text \<open>
  The records the catalogue and the inventory supply, reduced to what
  \<^verbatim>\<open>process_event\<close> reads. A station has its coordinates as numbers (the source
  converts them with \<^verbatim>\<open>float\<close>). An arrival has the station code and the time of its
  pick, its phase and its time residual. In the list of the arrivals of an origin, an
  arrival whose pick identifier refers to no pick is \<open>None\<close>: nothing can be read from
  it. An event has the timestamp of its creation and its preferred origin, which may be
  missing (\<^verbatim>\<open>preferred_origin()\<close> then returns \<^verbatim>\<open>None\<close>). Times are timestamps in
  seconds.
\<close>

record Station =
  sta_latitude :: real
  sta_longitude :: real

record Arrival =
  station_code :: string
  phase :: string
  time_residual :: real
  pick_time :: real

record Origin =
  latitude :: real
  longitude :: real
  depth :: real
  time :: real
  arrivals :: "Arrival option list"

record Event =
  creation_time :: real
  preferred_origin :: "Origin option"

text \<open>The rows written so far through \<open>p_writer\<close> and \<open>s_writer\<close>.\<close>

record sinks =
  p_rows :: "ArrivalRow list"
  s_rows :: "ArrivalRow list"

text \<open>
  \<^verbatim>\<open>str.split()\<close> without arguments: the maximal runs of characters that are not white
  space. A character is a code point below 256 here; the white space among these is
  listed.
\<close>

definition is_space :: "char \<Rightarrow> bool" where
  "is_space c = (c \<in> set [CHR '' '', CHR 0x09, CHR 0x0A, CHR 0x0B, CHR 0x0C, CHR 0x0D,
                            CHR 0x1C, CHR 0x1D, CHR 0x1E, CHR 0x1F, CHR 0x85, CHR 0xA0])"

fun split_acc :: "string \<Rightarrow> string \<Rightarrow> string list" where
  "split_acc cur [] = (if cur = [] then [] else [cur])"
| "split_acc cur (c # cs) =
     (if is_space c then (if cur = [] then split_acc [] cs else cur # split_acc [] cs)
      else split_acc (cur @ [c]) cs)"

definition py_split :: "string \<Rightarrow> string list" where
  "py_split s = split_acc [] s"

text \<open>
  A \<^verbatim>\<open>for\<close> loop whose body updates the sinks and may raise: an exception ends the
  loop and leaves it with the sinks as they are at that moment.
\<close>

fun for_each :: "('a \<Rightarrow> sinks \<Rightarrow> sinks \<times> error option) \<Rightarrow> 'a list \<Rightarrow> sinks \<Rightarrow> sinks \<times> error option" where
  "for_each body [] st = (st, None)"
| "for_each body (a # as) st =
     (case body a st of
        (st', Some e) \<Rightarrow> (st', Some e)
      | (st', None) \<Rightarrow> for_each body as st')"

text \<open>
  The list handed to \<^verbatim>\<open>writer.writerow\<close>, column by column. The travel time is the
  time of the pick minus the time of the origin; the phase code is 1 for the first wave
  type and 2 otherwise.
\<close>

definition arrival_row ::
  "int \<Rightarrow> int \<Rightarrow> int \<Rightarrow> Origin \<Rightarrow> Station \<Rightarrow> real \<Rightarrow> string \<Rightarrow> Arrival \<Rightarrow> ArrivalRow" where
  "arrival_row event_block sta_block ev_number origin sta degrees_to_source p_type arr =
     \<lparr>source_block = event_block, station_block = sta_block,
      residual = time_residual arr, event_number = ev_number,
      source_longitude = longitude origin, source_latitude = latitude origin,
      source_depth = depth origin,
      station_longitude = sta_longitude sta, station_latitude = sta_latitude sta,
      observed_tt = pick_time arr - time origin,
      locations2degrees = degrees_to_source,
      P_or_S = (if phase arr = p_type then 1 else 2)\<rparr>"

text \<open>
  The body of the loop over \<^verbatim>\<open>origin.arrivals\<close> in \<^verbatim>\<open>process_event\<close>. The geodetic
  distance \<^verbatim>\<open>locations2degrees\<close> of the seismology library is the parameter \<open>l2d\<close>.
  An arrival of an unknown station, of a station more than 90 degrees away or of
  another phase writes nothing, and the loop goes on.
\<close>

definition process_arrival ::
  "(real \<Rightarrow> real \<Rightarrow> real \<Rightarrow> real \<Rightarrow> real) \<Rightarrow> (string \<rightharpoonup> Station) \<Rightarrow> string \<Rightarrow> string \<Rightarrow>
   real \<Rightarrow> real \<Rightarrow> real \<Rightarrow> int \<Rightarrow> int \<Rightarrow> int \<Rightarrow> Origin \<Rightarrow> int \<Rightarrow> Arrival \<Rightarrow> sinks \<Rightarrow>
   sinks \<times> error option" where
  "process_arrival l2d stations wave_type p_type dx dy dz nx ny ev_number origin event_block arr st =
     (case stations (station_code arr) of
        None \<Rightarrow> (st, None)
      | Some sta \<Rightarrow>
          let degrees_to_source =
                l2d (latitude origin) (longitude origin) (sta_latitude sta) (sta_longitude sta)
          in if degrees_to_source > 90 then (st, None)
             else case find_block dx dy dz nx ny (sta_latitude sta) (sta_longitude sta) 0 of
                    Inl e \<Rightarrow> (st, Some e)
                  | Inr sta_block \<Rightarrow>
                      if phase arr \<in> set (py_split wave_type) then
                        let row = arrival_row event_block sta_block ev_number origin sta
                                    degrees_to_source p_type arr
                        in if phase arr = p_type
                           then (st\<lparr>p_rows := p_rows st @ [row]\<rparr>, None)
                           else (st\<lparr>s_rows := s_rows st @ [row]\<rparr>, None)
                      else (st, None))"

text \<open>
  \<^verbatim>\<open>process_event\<close>. Unpacking \<^verbatim>\<open>wave_type.split()\<close> into two names raises
  \<^verbatim>\<open>ValueError\<close> unless there are exactly two words; the event number is the integer
  part of the binary64 product of the timestamp and \<^verbatim>\<open>1e6\<close>, and \<^verbatim>\<open>int\<close> raises
  \<^verbatim>\<open>OverflowError\<close> on an infinite product; reading an attribute of a missing origin
  raises \<^verbatim>\<open>AttributeError\<close>; \<^verbatim>\<open>360. / nx\<close> and \<^verbatim>\<open>180. / ny\<close> raise \<^verbatim>\<open>ZeroDivisionError\<close> on
  zero. In the loop, reading the station code of an arrival without pick raises
  \<^verbatim>\<open>AttributeError\<close>, after the rows of the arrivals before it have been written.
\<close>

definition process_event ::
  "(real \<Rightarrow> real \<Rightarrow> real \<Rightarrow> real \<Rightarrow> real) \<Rightarrow> Event \<Rightarrow> (string \<rightharpoonup> Station) \<Rightarrow> sinks \<Rightarrow>
   int \<Rightarrow> int \<Rightarrow> real \<Rightarrow> string \<Rightarrow> sinks \<times> error option" where
  "process_event l2d event stations st nx ny dz wave_type =
     (case py_split wave_type of
        [p_type, s_type] \<Rightarrow>
          (case b64 (creation_time event * 1000000) of
             None \<Rightarrow> (st, Some OverflowError)
           | Some t \<Rightarrow>
          let ev_number = py_int t in
          (case preferred_origin event of
             None \<Rightarrow> (st, Some AttributeError)
           | Some origin \<Rightarrow>
               (case py_div 360 (of_int nx) of Inl e \<Rightarrow> (st, Some e) | Inr dx \<Rightarrow>
                case py_div 180 (of_int ny) of Inl e \<Rightarrow> (st, Some e) | Inr dy \<Rightarrow>
                case find_block dx dy dz nx ny (latitude origin) (longitude origin) (depth origin) of
                  Inl e \<Rightarrow> (st, Some e)
                | Inr event_block \<Rightarrow>
                    for_each
                      (\<lambda>a s. case a of
                                None \<Rightarrow> (s, Some AttributeError)
                              | Some arr \<Rightarrow>
                                  process_arrival l2d stations wave_type p_type dx dy dz nx ny
                                    ev_number origin event_block arr s)
                      (arrivals origin) st)))
      | _ \<Rightarrow> (st, Some ValueError))"

text \<open>
  \<^verbatim>\<open>process_many_events\<close>: the two files are opened empty, the events are processed in
  order, and nothing catches an exception of \<^verbatim>\<open>process_event\<close>.
\<close>

definition process_many_events ::
  "(real \<Rightarrow> real \<Rightarrow> real \<Rightarrow> real \<Rightarrow> real) \<Rightarrow> Event list \<Rightarrow> int \<Rightarrow> int \<Rightarrow> real \<Rightarrow>
   (string \<rightharpoonup> Station) \<Rightarrow> string \<Rightarrow> sinks \<times> error option" where
  "process_many_events l2d events nx ny dz stations wave_type =
     (case py_split wave_type of
        [p_type, s_type] \<Rightarrow>
          for_each (\<lambda>e st. process_event l2d e stations st nx ny dz wave_type) events
            \<lparr>p_rows = [], s_rows = []\<rparr>
      | _ \<Rightarrow> (\<lparr>p_rows = [], s_rows = []\<rparr>, Some ValueError))"

text \<open>
  Test data: a station, an event at a given depth with one P arrival at that station
  ten seconds after the origin time, an event without a preferred origin, and an event
  whose second arrival has no pick.
\<close>

definition ex_stations :: "string \<rightharpoonup> Station" where
  "ex_stations = [''STA'' \<mapsto> \<lparr>sta_latitude = - 20, sta_longitude = 130\<rparr>]"

definition ex_arrival :: Arrival where
  "ex_arrival = \<lparr>station_code = ''STA'', phase = ''P'', time_residual = 1 / 2, pick_time = 110\<rparr>"

definition ex_origin :: "real \<Rightarrow> Origin" where
  "ex_origin d = \<lparr>latitude = - 20, longitude = 130, depth = d, time = 100,
                   arrivals = [Some ex_arrival]\<rparr>"

definition ex_event :: "real \<Rightarrow> Event" where
  "ex_event d = \<lparr>creation_time = 5, preferred_origin = Some (ex_origin d)\<rparr>"

definition ex_event_no_origin :: Event where
  "ex_event_no_origin = \<lparr>creation_time = 6, preferred_origin = None\<rparr>"

definition ex_event_no_pick :: Event where
  "ex_event_no_pick =
     \<lparr>creation_time = 7,
      preferred_origin = Some ((ex_origin 10000)\<lparr>arrivals := [Some ex_arrival, None]\<rparr>)\<rparr>"

section \<open>Properties of the sort command\<close>

lemma sort_values_filter:
  "filter (\<lambda>r. key r = k) (sort_values df) = filter (\<lambda>r. key r = k) df"
  by (simp add: sort_values_def sort_key_stable)

lemma set_sort_values: "set (sort_values df) = set df"
  by (simp add: sort_values_def)

lemma group_keys_sort_values:
  "sort (remdups (map key (sort_values df))) = sort (remdups (map key df))"
proof (rule sorted_distinct_set_unique)
  show "set (sort (remdups (map key (sort_values df)))) = set (sort (remdups (map key df)))"
    by (simp add: set_sort_values)
qed simp_all

lemma keep_of_subset: "set (keep_of g) \<subseteq> set g"
  by (auto simp: keep_of_def dest: in_set_takeD)

lemma keep_of_filter_key:
  "r \<in> set (keep_of (filter (\<lambda>r. key r = k) df)) \<Longrightarrow> key r = k"
  using keep_of_subset [of "filter (\<lambda>r. key r = k) df"] by auto

lemma group_keys_Nil: "sort (remdups (map key rows)) = [] \<longleftrightarrow> rows = []"
proof -
  have "set (sort (remdups (map key rows))) = {} \<longleftrightarrow> rows = []" by simp
  then show ?thesis by (simp only: set_empty)
qed

lemma sort_values_Nil: "sort_values df = [] \<longleftrightarrow> df = []"
  using set_sort_values [of df] by (metis set_empty)

lemma sort_cmd_unfold:
  "sort_cmd rows =
     (if rows = [] then Inl ValueError
      else Inr (concat (map (\<lambda>k. keep_of (filter (\<lambda>r. key r = k) rows))
                            (sort (remdups (map key rows))))))"
  by (simp add: sort_cmd_def groupby_def pd_concat_def Let_def comp_def
      group_keys_sort_values sort_values_filter group_keys_Nil sort_values_Nil)

lemma filter_concat_keyed:
  assumes "distinct ks" and "\<And>k' r. k' \<in> set ks \<Longrightarrow> r \<in> set (f k') \<Longrightarrow> kf r = k'"
  shows "filter (\<lambda>r. kf r = k) (concat (map f ks)) = (if k \<in> set ks then f k else [])"
  using assms
proof (induction ks)
  case Nil
  then show ?case by simp
next
  case (Cons a ks)
  have own: "filter (\<lambda>r. kf r = a) (f a) = f a"
    using Cons.prems(2) [of a] by (simp add: filter_id_conv)
  have other: "k \<noteq> a \<Longrightarrow> filter (\<lambda>r. kf r = k) (f a) = []"
    using Cons.prems(2) [of a] by (auto simp: filter_empty_conv)
  have IH: "filter (\<lambda>r. kf r = k) (concat (map f ks)) = (if k \<in> set ks then f k else [])"
    using Cons by auto
  show ?case
  proof (cases "k = a")
    case True
    then show ?thesis using Cons.prems(1) IH own by simp
  next
    case False
    then show ?thesis using IH other by simp
  qed
qed

lemma keep_of_Nil: "keep_of [] = []"
  by (simp add: keep_of_def)

lemma sort_cmd_group:
  assumes "rows \<noteq> []"
  shows "\<exists>out. sort_cmd rows = Inr out \<and>
           (\<forall>k. filter (\<lambda>r. key r = k) out = keep_of (filter (\<lambda>r. key r = k) rows))"
proof -
  let ?ks = "sort (remdups (map key rows))"
  let ?f = "\<lambda>k. keep_of (filter (\<lambda>r. key r = k) rows)"
  have out: "sort_cmd rows = Inr (concat (map ?f ?ks))"
    using assms by (simp add: sort_cmd_unfold)
  have "filter (\<lambda>r. key r = k) (concat (map ?f ?ks)) = ?f k" for k
  proof -
    have "filter (\<lambda>r. key r = k) (concat (map ?f ?ks)) = (if k \<in> set ?ks then ?f k else [])"
      by (rule filter_concat_keyed) (auto dest: keep_of_filter_key)
    moreover have "k \<notin> set ?ks \<Longrightarrow> filter (\<lambda>r. key r = k) rows = []"
      by (auto simp: filter_empty_conv)
    ultimately show ?thesis by (auto simp: keep_of_Nil)
  qed
  with out show ?thesis by blast
qed

lemma keep_of_cases: "keep_of g = [] \<or> (\<exists>r. keep_of g = [r])"
proof -
  have "length (keep_of g) \<le> 1" by (simp add: keep_of_def)
  then show ?thesis by (cases "keep_of g") auto
qed

lemma keep_of_keys:
  "map key (keep_of (filter (\<lambda>r. key r = k) rows)) =
     filter (\<lambda>k. keep_of (filter (\<lambda>r. key r = k) rows) \<noteq> []) [k]"
proof -
  let ?g = "filter (\<lambda>r. key r = k) rows"
  from keep_of_cases [of ?g] show ?thesis
  proof
    assume "keep_of ?g = []"
    then show ?thesis by simp
  next
    assume "\<exists>r. keep_of ?g = [r]"
    then obtain r where r: "keep_of ?g = [r]" ..
    then have "key r = k" using keep_of_filter_key [of r k rows] by simp
    with r show ?thesis by simp
  qed
qed

lemma keys_concat_keep:
  "map key (concat (map (\<lambda>k. keep_of (filter (\<lambda>r. key r = k) rows)) ks)) =
     filter (\<lambda>k. keep_of (filter (\<lambda>r. key r = k) rows) \<noteq> []) ks"
proof (induction ks)
  case Nil
  then show ?case by simp
next
  case (Cons a ks)
  have "map key (concat (map (\<lambda>k. keep_of (filter (\<lambda>r. key r = k) rows)) (a # ks))) =
      map key (keep_of (filter (\<lambda>r. key r = a) rows)) @
      map key (concat (map (\<lambda>k. keep_of (filter (\<lambda>r. key r = k) rows)) ks))"
    by simp
  also have "\<dots> = filter (\<lambda>k. keep_of (filter (\<lambda>r. key r = k) rows) \<noteq> []) [a] @
      filter (\<lambda>k. keep_of (filter (\<lambda>r. key r = k) rows) \<noteq> []) ks"
    by (simp only: keep_of_keys Cons.IH)
  finally show ?case by simp
qed

lemma sort_cmd_keys_sorted:
  assumes "sort_cmd rows = Inr out"
  shows "sorted (map key out) \<and> distinct (map key out)"
proof -
  have ne: "rows \<noteq> []" using assms by (auto simp: sort_cmd_unfold)
  then have "out = concat (map (\<lambda>k. keep_of (filter (\<lambda>r. key r = k) rows))
      (sort (remdups (map key rows))))"
    using assms by (simp add: sort_cmd_unfold)
  then have "map key out = filter (\<lambda>k. keep_of (filter (\<lambda>r. key r = k) rows) \<noteq> [])
      (sort (remdups (map key rows)))"
    by (simp only: keys_concat_keep)
  then show ?thesis by (simp add: sorted_wrt_filter)
qed

lemma filter_own_key:
  "distinct (map f xs) \<Longrightarrow> x \<in> set xs \<Longrightarrow> filter (\<lambda>y. f y = f x) xs = [x]"
proof (induction xs)
  case Nil
  then show ?case by simp
next
  case (Cons a xs)
  show ?case
  proof (cases "x = a")
    case True
    have "f a \<notin> f ` set xs" using Cons.prems(1) by simp
    then have "\<forall>y\<in>set xs. f y \<noteq> f a" by (metis imageI)
    then have "filter (\<lambda>y. f y = f a) xs = []"
      by (simp add: filter_empty_conv)
    with True show ?thesis by simp
  next
    case False
    then have "x \<in> set xs" using Cons.prems(2) by simp
    moreover have "f a \<noteq> f x" using Cons.prems(1) \<open>x \<in> set xs\<close> by auto
    ultimately show ?thesis using Cons by simp
  qed
qed

lemma median_single: "median [x] = Some x"
  by (simp add: median_def)

lemma keep_of_single: "keep_of [r] = [r]"
  by (simp add: keep_of_def median_single)

lemma concat_singletons: "concat (map (\<lambda>x. [x]) xs) = xs"
  by (induction xs) auto

lemma sort_cmd_fixed:
  assumes "sorted (map key out)" and "distinct (map key out)" and "out \<noteq> []"
  shows "sort_cmd out = Inr out"
proof -
  have ks: "sort (remdups (map key out)) = map key out"
    using assms(1,2) by (simp add: distinct_remdups_id sort_key_id_if_sorted)
  have "map (\<lambda>k. keep_of (filter (\<lambda>r. key r = k) out)) (map key out) = map (\<lambda>x. [x]) out"
    using assms(2) by (auto simp: filter_own_key keep_of_single)
  then have "concat (map (\<lambda>k. keep_of (filter (\<lambda>r. key r = k) out)) (map key out)) = out"
    by (simp only: concat_singletons)
  with ks assms(3) show ?thesis by (simp add: sort_cmd_unfold)
qed

lemma sort_cmd_idem:
  assumes "sort_cmd rows \<noteq> Inr []"
  shows "sort_twice rows = sort_cmd rows"
proof (cases "sort_cmd rows")
  case (Inl e)
  then show ?thesis by (simp add: sort_twice_def)
next
  case (Inr out)
  with assms have "out \<noteq> []" by simp
  with Inr sort_cmd_keys_sorted [OF Inr] have "sort_cmd out = Inr out"
    by (simp add: sort_cmd_fixed)
  with Inr show ?thesis by (simp add: sort_twice_def)
qed

lemma keep_of_first:
  assumes "g = pre @ r # post" and "Some (observed_tt r) = median (map observed_tt g)"
    and "\<forall>x\<in>set pre. Some (observed_tt x) \<noteq> median (map observed_tt g)"
  shows "keep_of g = [r]"
proof -
  let ?P = "\<lambda>x. Some (observed_tt x) = median (map observed_tt g)"
  have "filter ?P pre = []" using assms(3) by (simp add: filter_empty_conv)
  then have "filter ?P g = r # filter ?P post" using assms(1,2) by simp
  then show ?thesis by (simp add: keep_of_def)
qed

lemmas b64_eval = b64_def b64_mean2_def b64_exponent.simps pow2_def py_round_def Let_def

lemma b64_mean2_1_2: "b64_mean2 1 2 = Some (3 / 2)"
  by (simp add: b64_eval)

lemma b64_mean2_5_5: "b64_mean2 5 5 = Some 5"
  by (simp add: b64_eval)

lemma b64_mean2_next_after_1: "b64_mean2 1 (4503599627370497 / 4503599627370496) = Some 1"
  by (simp add: b64_eval)

lemma median_even:
  assumes "xs \<noteq> []" and "even (length xs)"
  shows "median xs = b64_mean2 (sort xs ! (length xs div 2 - 1)) (sort xs ! (length xs div 2))"
proof -
  have "sort xs \<noteq> []" using assms(1) by (metis set_sort set_empty)
  then show ?thesis using assms by (simp add: median_def Let_def)
qed

lemma median_no_match_even:
  assumes ne: "xs \<noteq> []" and no: "\<forall>x\<in>set xs. Some x \<noteq> median xs"
  shows "even (length xs)"
proof (rule ccontr)
  let ?s = "sort xs"
  let ?n = "length xs"
  assume odd: "odd ?n"
  have n: "0 < ?n" using ne by simp
  have sne: "?s \<noteq> []" using ne by (metis set_sort set_empty)
  have mid: "?s ! (?n div 2) \<in> set xs"
    using n nth_mem [of "?n div 2" ?s] by simp
  have "median xs = Some (?s ! (?n div 2))"
    using n sne odd by (simp add: median_def Let_def)
  with mid no show False by force
qed

lemma mk_row_simps:
  "key (mk_row a b t) = (a, b)" "observed_tt (mk_row a b t) = t"
  "mk_row a b t = mk_row a' b' t' \<longleftrightarrow> a = a' \<and> b = b' \<and> t = t'"
  by (auto simp: mk_row_def key_def)

text \<open>
  Claim C1 says that a group of even size whose two central travel times differ has a
  median that no row equals, and so contributes no row. The median is their binary64
  mean. For the travel times 1 and \<open>1 + 2 ^ -52\<close>, the next binary64 number after 1, the
  sum \<open>2 + 2 ^ -52\<close> lies halfway between two binary64 numbers and is rounded to 2, the
  mean is 1, and the first row is kept.
\<close>

theorem dedup_even_group_counterexample:
  "(1 :: real) \<noteq> 1 + 1 / 2 ^ 52 \<and>
   sort_cmd [mk_row 1 1 1, mk_row 1 1 (1 + 1 / 2 ^ 52)] = Inr [mk_row 1 1 1]"
  by (simp add: sort_cmd_unfold keep_of_def median_def mk_row_simps b64_mean2_next_after_1)

text \<open>
  Claim C1, amended. The rows written by \<^verbatim>\<open>sort\<close> are grouped by the key
  \<open>(source_block, station_block)\<close>. For a non-empty input the command returns, and for
  every key: when some row of the key's group has an \<open>observed_tt\<close> equal to the
  group's median, the output holds exactly one row with that key, a row of the group
  whose \<open>observed_tt\<close> is the median; when no row's \<open>observed_tt\<close> equals the median,
  the output holds no row with that key. The second case only arises for a group of
  even size, whose median is the binary64 mean of its two central travel times. A
  group with travel times 1, 2, 3 yields its row with travel time 2; a group with
  travel times 1, 2 yields no row.
\<close>

theorem dedup_keeps_median_row:
  "(rows \<noteq> [] \<longrightarrow>
      (\<exists>out. sort_cmd rows = Inr out \<and>
         (\<forall>k. let grp = filter (\<lambda>r. key r = k) rows; med = median (map observed_tt grp) in
              if \<exists>r\<in>set grp. Some (observed_tt r) = med
              then \<exists>r\<in>set grp. Some (observed_tt r) = med \<and> filter (\<lambda>r. key r = k) out = [r]
              else filter (\<lambda>r. key r = k) out = [])))
   \<and> (\<forall>k. let grp = filter (\<lambda>r. key r = k) rows; tts = map observed_tt grp in
          grp \<noteq> [] \<and> (\<forall>r\<in>set grp. Some (observed_tt r) \<noteq> median tts) \<longrightarrow>
          even (length grp) \<and>
          median tts = b64_mean2 (sort tts ! (length grp div 2 - 1)) (sort tts ! (length grp div 2)))
   \<and> (key r1 = k1 \<and> key r2 = k1 \<and> key r3 = k1 \<and>
        observed_tt r1 = 1 \<and> observed_tt r2 = 2 \<and> observed_tt r3 = 3 \<longrightarrow>
        sort_cmd [r1, r2, r3] = Inr [r2])
   \<and> (key q1 = k2 \<and> key q2 = k2 \<and> observed_tt q1 = 1 \<and> observed_tt q2 = 2 \<longrightarrow>
        sort_cmd [q1, q2] = Inr [])"
proof (intro conjI impI)
  assume ne: "rows \<noteq> []"
  from sort_cmd_group [OF ne] obtain out where out: "sort_cmd rows = Inr out"
    and grp: "\<And>k. filter (\<lambda>r. key r = k) out = keep_of (filter (\<lambda>r. key r = k) rows)"
    by blast
  have "let grp = filter (\<lambda>r. key r = k) rows; med = median (map observed_tt grp) in
        if \<exists>r\<in>set grp. Some (observed_tt r) = med
        then \<exists>r\<in>set grp. Some (observed_tt r) = med \<and> filter (\<lambda>r. key r = k) out = [r]
        else filter (\<lambda>r. key r = k) out = []" for k
  proof -
    let ?g = "filter (\<lambda>r. key r = k) rows"
    let ?P = "\<lambda>x. Some (observed_tt x) = median (map observed_tt ?g)"
    show ?thesis
    proof (cases "\<exists>r\<in>set ?g. ?P r")
      case True
      then have "filter ?P ?g \<noteq> []" by (auto simp: filter_empty_conv)
      then obtain r rest where fr: "filter ?P ?g = r # rest" by (cases "filter ?P ?g") auto
      then have "r \<in> set (filter ?P ?g)" by simp
      then have "r \<in> set ?g" and "?P r" by auto
      moreover have "keep_of ?g = [r]" using fr by (simp add: keep_of_def)
      ultimately have "\<exists>r\<in>set ?g. ?P r \<and> filter (\<lambda>r. key r = k) out = [r]"
        using grp [of k] by - (rule bexI [of _ r], simp_all)
      then show ?thesis unfolding Let_def by (subst if_P [OF True])
    next
      case False
      then have "filter ?P ?g = []" by (auto simp: filter_empty_conv)
      then have "keep_of ?g = []" by (simp add: keep_of_def)
      with False grp [of k] show ?thesis by (simp add: Let_def)
    qed
  qed
  with out show "\<exists>out. sort_cmd rows = Inr out \<and>
         (\<forall>k. let grp = filter (\<lambda>r. key r = k) rows; med = median (map observed_tt grp) in
              if \<exists>r\<in>set grp. Some (observed_tt r) = med
              then \<exists>r\<in>set grp. Some (observed_tt r) = med \<and> filter (\<lambda>r. key r = k) out = [r]
              else filter (\<lambda>r. key r = k) out = [])"
    by blast
next
  have "grp \<noteq> [] \<and> (\<forall>r\<in>set grp. Some (observed_tt r) \<noteq> median (map observed_tt grp)) \<longrightarrow>
      even (length grp) \<and>
      median (map observed_tt grp) =
        b64_mean2 (sort (map observed_tt grp) ! (length grp div 2 - 1))
          (sort (map observed_tt grp) ! (length grp div 2))" for grp :: "ArrivalRow list"
  proof (intro impI, elim conjE)
    assume g: "grp \<noteq> []" and no: "\<forall>r\<in>set grp. Some (observed_tt r) \<noteq> median (map observed_tt grp)"
    have ev: "even (length (map observed_tt grp))"
      using median_no_match_even [of "map observed_tt grp"] g no by simp
    with median_even [of "map observed_tt grp"] g
    show "even (length grp) \<and>
      median (map observed_tt grp) =
        b64_mean2 (sort (map observed_tt grp) ! (length grp div 2 - 1))
          (sort (map observed_tt grp) ! (length grp div 2))" by simp
  qed
  then show "\<forall>k. let grp = filter (\<lambda>r. key r = k) rows; tts = map observed_tt grp in
          grp \<noteq> [] \<and> (\<forall>r\<in>set grp. Some (observed_tt r) \<noteq> median tts) \<longrightarrow>
          even (length grp) \<and>
          median tts = b64_mean2 (sort tts ! (length grp div 2 - 1)) (sort tts ! (length grp div 2))"
    unfolding Let_def by blast
next
  assume "key r1 = k1 \<and> key r2 = k1 \<and> key r3 = k1 \<and>
        observed_tt r1 = 1 \<and> observed_tt r2 = 2 \<and> observed_tt r3 = 3"
  then show "sort_cmd [r1, r2, r3] = Inr [r2]"
    by (simp add: sort_cmd_unfold keep_of_def median_def)
next
  assume "key q1 = k2 \<and> key q2 = k2 \<and> observed_tt q1 = 1 \<and> observed_tt q2 = 2"
  then show "sort_cmd [q1, q2] = Inr []"
    by (simp add: sort_cmd_unfold keep_of_def median_def b64_mean2_1_2)
qed

theorem dedup_keeps_median_row_witness:
  "[mk_row 2 1 5, mk_row 1 1 1, mk_row 1 1 2, mk_row 1 1 3, mk_row 3 4 1, mk_row 3 4 2] \<noteq> []
   \<and> (\<exists>out. sort_cmd [mk_row 2 1 5, mk_row 1 1 1, mk_row 1 1 2, mk_row 1 1 3,
                        mk_row 3 4 1, mk_row 3 4 2] = Inr out
        \<and> filter (\<lambda>r. key r = (1, 1)) out = [mk_row 1 1 2]
        \<and> filter (\<lambda>r. key r = (3, 4)) out = [])
   \<and> even (length (filter (\<lambda>r. key r = (3, 4))
        [mk_row 2 1 5, mk_row 1 1 1, mk_row 1 1 2, mk_row 1 1 3, mk_row 3 4 1, mk_row 3 4 2]))
   \<and> sort_cmd [mk_row 7 9 1, mk_row 7 9 2, mk_row 7 9 3] = Inr [mk_row 7 9 2]
   \<and> sort_cmd [mk_row 7 9 1, mk_row 7 9 2] = Inr []"
proof -
  let ?rows = "[mk_row 2 1 5, mk_row 1 1 1, mk_row 1 1 2, mk_row 1 1 3, mk_row 3 4 1, mk_row 3 4 2]"
  note inst = dedup_keeps_median_row [of ?rows "mk_row 7 9 1" "(7, 9)" "mk_row 7 9 2" "mk_row 7 9 3"
      "mk_row 7 9 1" "(7, 9)" "mk_row 7 9 2"]
  from inst obtain out where out: "sort_cmd ?rows = Inr out"
    and grp: "\<And>k. let grp = filter (\<lambda>r. key r = k) ?rows; med = median (map observed_tt grp) in
              if \<exists>r\<in>set grp. Some (observed_tt r) = med
              then \<exists>r\<in>set grp. Some (observed_tt r) = med \<and> filter (\<lambda>r. key r = k) out = [r]
              else filter (\<lambda>r. key r = k) out = []"
    by auto
  have a: "filter (\<lambda>r. key r = (1, 1)) out = [mk_row 1 1 2]"
    using grp [of "(1, 1)"] by (simp add: mk_row_simps median_def)
  have b: "filter (\<lambda>r. key r = (3, 4)) out = []"
    using grp [of "(3, 4)"] by (simp add: mk_row_simps median_def b64_mean2_1_2)
  have e: "even (length (filter (\<lambda>r. key r = (3, 4)) ?rows))"
    by (simp add: mk_row_simps)
  have c: "sort_cmd [mk_row 7 9 1, mk_row 7 9 2, mk_row 7 9 3] = Inr [mk_row 7 9 2]"
    using inst by (simp add: mk_row_simps)
  have d: "sort_cmd [mk_row 7 9 1, mk_row 7 9 2] = Inr []"
    using inst by (simp add: mk_row_simps)
  from out a b c d e show ?thesis by blast
qed

text \<open>
  Claim C8. Let \<open>r\<close> be a row of the input whose \<open>observed_tt\<close> equals the median of its
  group, and let no row of the same group that stands before \<open>r\<close> in the input have
  an \<open>observed_tt\<close> equal to that median. Then \<open>r\<close> is the one row the command keeps for
  the group, whatever rows follow it (further rows equal to the median included). The
  sort by key that precedes the grouping keeps rows of the same key in their input order.
\<close>

theorem dedup_keeps_first_match:
  "rows = pre @ r # post \<and> key r = k \<and>
   Some (observed_tt r) = median (map observed_tt (filter (\<lambda>x. key x = k) rows)) \<and>
   (\<forall>x\<in>set pre. key x = k \<longrightarrow>
      Some (observed_tt x) \<noteq> median (map observed_tt (filter (\<lambda>x. key x = k) rows)))
   \<longrightarrow>
   filter (\<lambda>x. key x = k) (sort_values rows) = filter (\<lambda>x. key x = k) rows \<and>
   (\<exists>out. sort_cmd rows = Inr out \<and> filter (\<lambda>x. key x = k) out = [r])"
proof (intro impI, elim conjE)
  let ?g = "filter (\<lambda>x. key x = k) rows"
  assume rows: "rows = pre @ r # post" and kr: "key r = k"
    and med: "Some (observed_tt r) = median (map observed_tt ?g)"
    and first: "\<forall>x\<in>set pre. key x = k \<longrightarrow> Some (observed_tt x) \<noteq> median (map observed_tt ?g)"
  have g: "?g = filter (\<lambda>x. key x = k) pre @ r # filter (\<lambda>x. key x = k) post"
    using rows kr by simp
  have "\<forall>x\<in>set (filter (\<lambda>x. key x = k) pre). Some (observed_tt x) \<noteq> median (map observed_tt ?g)"
    using first by simp
  with g med have keep: "keep_of ?g = [r]" by (rule keep_of_first)
  have "rows \<noteq> []" using rows by simp
  from sort_cmd_group [OF this] obtain out where "sort_cmd rows = Inr out"
    and "filter (\<lambda>x. key x = k) out = keep_of ?g" by blast
  with keep have "\<exists>out. sort_cmd rows = Inr out \<and> filter (\<lambda>x. key x = k) out = [r]" by simp
  then show "filter (\<lambda>x. key x = k) (sort_values rows) = filter (\<lambda>x. key x = k) rows \<and>
   (\<exists>out. sort_cmd rows = Inr out \<and> filter (\<lambda>x. key x = k) out = [r])"
    by (simp add: sort_values_filter)
qed

theorem dedup_keeps_first_match_witness:
  "(\<exists>out. sort_cmd [mk_row 2 2 7, mk_row 1 1 4, (mk_row 1 1 5)\<lparr>residual := 1\<rparr>,
                     (mk_row 1 1 5)\<lparr>residual := 2\<rparr>, mk_row 1 1 6] = Inr out
      \<and> filter (\<lambda>x. key x = (1, 1)) out = [(mk_row 1 1 5)\<lparr>residual := 1\<rparr>])"
proof -
  let ?r = "(mk_row 1 1 5)\<lparr>residual := 1\<rparr>"
  let ?pre = "[mk_row 2 2 7, mk_row 1 1 4]"
  let ?post = "[(mk_row 1 1 5)\<lparr>residual := 2\<rparr>, mk_row 1 1 6]"
  let ?rows = "[mk_row 2 2 7, mk_row 1 1 4, ?r, (mk_row 1 1 5)\<lparr>residual := 2\<rparr>, mk_row 1 1 6]"
  have "?rows = ?pre @ ?r # ?post \<and> key ?r = (1, 1) \<and>
   Some (observed_tt ?r) = median (map observed_tt (filter (\<lambda>x. key x = (1, 1)) ?rows)) \<and>
   (\<forall>x\<in>set ?pre. key x = (1, 1) \<longrightarrow>
      Some (observed_tt x) \<noteq> median (map observed_tt (filter (\<lambda>x. key x = (1, 1)) ?rows)))"
    by (simp add: mk_row_def key_def median_def b64_mean2_5_5)
  with dedup_keeps_first_match [of ?rows ?pre ?r ?post "(1, 1)"] show ?thesis by blast
qed

text \<open>
  Claim C10. On an input of no rows there is no group, \<open>keep\<close> stays the empty list and
  \<^verbatim>\<open>pd.concat\<close> raises \<^verbatim>\<open>ValueError\<close>: the command fails and does not produce an empty
  row set.
\<close>

theorem dedup_empty_raises: "sort_cmd [] = Inl ValueError \<and> sort_cmd [] \<noteq> Inr []"
  by (simp add: sort_cmd_def sort_values_def groupby_def pd_concat_def)

text \<open>
  Claim C4 says that running the command on its own result gives that result again,
  for every row set. It fails for the two rows below: they form one group of even size
  whose median 1.5 matches no row, the first run returns the empty row set, and the
  second run raises \<^verbatim>\<open>ValueError\<close> on it.
\<close>

theorem dedup_idempotent_counterexample:
  "sort_twice [mk_row 1 1 1, mk_row 1 1 2] \<noteq> sort_cmd [mk_row 1 1 1, mk_row 1 1 2]"
  by (simp add: sort_twice_def sort_cmd_unfold keep_of_def median_def mk_row_def key_def
      b64_mean2_1_2)

text \<open>
  Claim C4, amended. Whenever the first run does not return the empty row set, the
  second run returns what the first run returned (an exception of the first run
  included); when the first run returns the empty row set, the second run raises
  \<^verbatim>\<open>ValueError\<close>.
\<close>

theorem dedup_idempotent_nonempty:
  "(sort_cmd rows \<noteq> Inr [] \<longrightarrow> sort_twice rows = sort_cmd rows) \<and>
   (sort_cmd rows = Inr [] \<longrightarrow> sort_twice rows = Inl ValueError)"
proof (intro conjI impI)
  assume "sort_cmd rows \<noteq> Inr []"
  then show "sort_twice rows = sort_cmd rows" by (rule sort_cmd_idem)
next
  assume "sort_cmd rows = Inr []"
  then show "sort_twice rows = Inl ValueError"
    by (simp add: sort_twice_def sort_cmd_unfold)
qed

theorem dedup_idempotent_nonempty_witness:
  "sort_cmd [mk_row 1 1 1, mk_row 1 1 2, mk_row 1 1 3] \<noteq> Inr [] \<and>
   sort_twice [mk_row 1 1 1, mk_row 1 1 2, mk_row 1 1 3] = Inr [mk_row 1 1 2]"
proof -
  have a: "sort_cmd [mk_row 1 1 1, mk_row 1 1 2, mk_row 1 1 3] = Inr [mk_row 1 1 2]"
    by (simp add: sort_cmd_unfold keep_of_def median_def mk_row_simps)
  then have b: "sort_cmd [mk_row 1 1 1, mk_row 1 1 2, mk_row 1 1 3] \<noteq> Inr []" by simp
  from dedup_idempotent_nonempty [of "[mk_row 1 1 1, mk_row 1 1 2, mk_row 1 1 3]"] a b
  show ?thesis by simp
qed

section \<open>Properties of the match command\<close>

lemma filter_key_length:
  "distinct (map f xs) \<Longrightarrow> length (filter (\<lambda>x. f x = k) xs) = (if k \<in> f ` set xs then 1 else 0)"
proof (induction xs)
  case Nil
  then show ?case by simp
next
  case (Cons a xs)
  then have IH: "length (filter (\<lambda>x. f x = k) xs) = (if k \<in> f ` set xs then 1 else 0)"
    and notin: "f a \<notin> f ` set xs" by simp_all
  show ?case
  proof (cases "f a = k")
    case True
    with notin IH show ?thesis by simp
  next
    case False
    with IH show ?thesis by auto
  qed
qed

lemma merge_inner_fst:
  assumes "distinct (map kr right)"
  shows "map fst (merge_inner kl kr left right) = filter (\<lambda>l. kl l \<in> kr ` set right) left"
proof (induction left)
  case Nil
  then show ?case by (simp add: merge_inner_def)
next
  case (Cons l left)
  have "map fst (map (\<lambda>r. (l, r)) (filter (\<lambda>r. kr r = kl l) right)) =
      replicate (length (filter (\<lambda>r. kr r = kl l) right)) l"
    by (simp add: map_replicate_const comp_def)
  also have "\<dots> = (if kl l \<in> kr ` set right then [l] else [])"
    using filter_key_length [OF assms, of "kl l"] by simp
  finally have hd: "map fst (map (\<lambda>r. (l, r)) (filter (\<lambda>r. kr r = kl l) right)) =
      (if kl l \<in> kr ` set right then [l] else [])" .
  have "map fst (merge_inner kl kr (l # left) right) =
      map fst (map (\<lambda>r. (l, r)) (filter (\<lambda>r. kr r = kl l) right)) @
      map fst (merge_inner kl kr left right)"
    by (simp add: merge_inner_def)
  with hd Cons.IH show ?case by simp
qed

lemma image_filter_mem: "f ` set (filter (\<lambda>l. f l \<in> S) xs) = f ` set xs \<inter> S"
  by (induction xs) auto

lemma keys_filter_subset: "f ` set (filter (\<lambda>r. f r \<in> K) xs) \<subseteq> K"
  by (induction xs) auto

lemma match_blocks:
  assumes "distinct (map key B)"
  shows "map (\<lambda>(l, r). key l) (merge_inner key key A B) =
         map key (filter (\<lambda>l. key l \<in> key ` set B) A)"
proof -
  have "map (\<lambda>(l, r). key l) (merge_inner key key A B) =
      map key (map fst (merge_inner key key A B))"
    by (simp add: case_prod_beta comp_def)
  then show ?thesis by (simp only: merge_inner_fst [OF assms])
qed

lemma match_filter:
  assumes dA: "distinct (map key A)" and dB: "distinct (map key B)"
  shows "match A B = (filter (\<lambda>r. key r \<in> key ` set A \<inter> key ` set B) A,
                      filter (\<lambda>r. key r \<in> key ` set A \<inter> key ` set B) B)"
proof -
  let ?blocks = "map key (filter (\<lambda>l. key l \<in> key ` set B) A)"
  have d: "distinct (map id ?blocks)" using dA by (simp add: distinct_map_filter)
  have s: "id ` set ?blocks = key ` set A \<inter> key ` set B"
    by (simp only: image_id set_map image_filter_mem id_apply)
  have "map fst (merge_inner key id A ?blocks) = filter (\<lambda>r. key r \<in> key ` set A \<inter> key ` set B) A"
    by (simp only: merge_inner_fst [OF d] s)
  moreover have "map fst (merge_inner key id B ?blocks) =
      filter (\<lambda>r. key r \<in> key ` set A \<inter> key ` set B) B"
    by (simp only: merge_inner_fst [OF d] s)
  ultimately show ?thesis
    by (simp add: match_def Let_def match_blocks [OF dB])
qed

lemma match_on_distinct_keys:
  "distinct (map key A) \<and> distinct (map key B) \<longrightarrow>
     match A B = (filter (\<lambda>r. key r \<in> key ` set A \<inter> key ` set B) A,
                  filter (\<lambda>r. key r \<in> key ` set A \<inter> key ` set B) B) \<and>
     length (fst (match A B)) \<le> length A \<and>
     length (snd (match A B)) \<le> length B \<and>
     key ` set (fst (match A B)) \<subseteq> key ` set A \<inter> key ` set B \<and>
     key ` set (snd (match A B)) \<subseteq> key ` set A \<inter> key ` set B \<and>
     (map key A = [(1, 1), (1, 2)] \<and> map key B = [(1, 2), (2, 2)] \<longrightarrow>
        map key (fst (match A B)) = [(1, 2)] \<and> map key (snd (match A B)) = [(1, 2)])"
proof (intro impI, elim conjE)
  assume dA: "distinct (map key A)" and dB: "distinct (map key B)"
  let ?K = "key ` set A \<inter> key ` set B"
  note m = match_filter [OF dA dB]
  have ex: "map key (fst (match A B)) = [(1, 2)] \<and> map key (snd (match A B)) = [(1, 2)]"
    if kA: "map key A = [(1, 1), (1, 2)]" and kB: "map key B = [(1, 2), (2, 2)]"
  proof -
    have sA: "key ` set A = {(1, 1), (1, 2)}" using kA by (metis list.set(1,2) set_map)
    have sB: "key ` set B = {(1, 2), (2, 2)}" using kB by (metis list.set(1,2) set_map)
    have K: "?K = {(1, 2)}" unfolding sA sB by auto
    have "map key (filter (\<lambda>r. key r \<in> ?K) A) = filter (\<lambda>k. k \<in> ?K) (map key A)"
      by (simp add: filter_map comp_def)
    moreover have "map key (filter (\<lambda>r. key r \<in> ?K) B) = filter (\<lambda>k. k \<in> ?K) (map key B)"
      by (simp add: filter_map comp_def)
    ultimately show ?thesis unfolding m K kA kB by simp
  qed
  show "match A B = (filter (\<lambda>r. key r \<in> ?K) A, filter (\<lambda>r. key r \<in> ?K) B) \<and>
     length (fst (match A B)) \<le> length A \<and>
     length (snd (match A B)) \<le> length B \<and>
     key ` set (fst (match A B)) \<subseteq> ?K \<and>
     key ` set (snd (match A B)) \<subseteq> ?K \<and>
     (map key A = [(1, 1), (1, 2)] \<and> map key B = [(1, 2), (2, 2)] \<longrightarrow>
        map key (fst (match A B)) = [(1, 2)] \<and> map key (snd (match A B)) = [(1, 2)])"
    unfolding m fst_conv snd_conv
  proof (intro conjI impI)
    show "key ` set (filter (\<lambda>r. key r \<in> ?K) A) \<subseteq> ?K" by (rule keys_filter_subset)
    show "key ` set (filter (\<lambda>r. key r \<in> ?K) B) \<subseteq> ?K" by (rule keys_filter_subset)
    assume "map key A = [(1, 1), (1, 2)] \<and> map key B = [(1, 2), (2, 2)]"
    with ex show "map key (filter (\<lambda>r. key r \<in> ?K) A) = [(1, 2)]"
      and "map key (filter (\<lambda>r. key r \<in> ?K) B) = [(1, 2)]"
      unfolding m fst_conv snd_conv by blast+
  qed simp_all
qed

text \<open>
  Claim C2. Deduplicated row sets, the results of the sort command, have no key twice.
  For two row sets \<open>A\<close> and \<open>B\<close> without a repeated key the command returns the rows of
  \<open>A\<close> and the rows of \<open>B\<close> whose key is a key of both, the rows themselves and in
  their order. So neither output is longer than its input, every key of an output is a
  key of both inputs, and for \<open>A\<close> with the keys (1,1), (1,2) and \<open>B\<close> with the keys
  (1,2), (2,2) each output is one row, with the key (1,2).
\<close>

theorem match_key_intersection:
  "(sort_cmd R1 = Inr A \<and> sort_cmd R2 = Inr B \<longrightarrow>
      distinct (map key A) \<and> distinct (map key B)) \<and>
   (distinct (map key A) \<and> distinct (map key B) \<longrightarrow>
        match A B = (filter (\<lambda>r. key r \<in> key ` set A \<inter> key ` set B) A,
                     filter (\<lambda>r. key r \<in> key ` set A \<inter> key ` set B) B) \<and>
        length (fst (match A B)) \<le> length A \<and>
        length (snd (match A B)) \<le> length B \<and>
        key ` set (fst (match A B)) \<subseteq> key ` set A \<inter> key ` set B \<and>
        key ` set (snd (match A B)) \<subseteq> key ` set A \<inter> key ` set B \<and>
        (map key A = [(1, 1), (1, 2)] \<and> map key B = [(1, 2), (2, 2)] \<longrightarrow>
           map key (fst (match A B)) = [(1, 2)] \<and> map key (snd (match A B)) = [(1, 2)]))"
proof (rule conjI)
  show "sort_cmd R1 = Inr A \<and> sort_cmd R2 = Inr B \<longrightarrow>
      distinct (map key A) \<and> distinct (map key B)"
    by (auto dest: sort_cmd_keys_sorted)
qed (rule match_on_distinct_keys)

theorem match_key_intersection_witness:
  "sort_cmd [mk_row 1 1 5, mk_row 1 2 6] = Inr [mk_row 1 1 5, mk_row 1 2 6] \<and>
   sort_cmd [mk_row 2 2 8, mk_row 1 2 7] = Inr [mk_row 1 2 7, mk_row 2 2 8] \<and>
   distinct (map key [mk_row 1 1 5, mk_row 1 2 6]) \<and>
   distinct (map key [mk_row 1 2 7, mk_row 2 2 8]) \<and>
   match [mk_row 1 1 5, mk_row 1 2 6] [mk_row 1 2 7, mk_row 2 2 8] =
     ([mk_row 1 2 6], [mk_row 1 2 7])"
proof -
  have a: "sort_cmd [mk_row 1 1 5, mk_row 1 2 6] = Inr [mk_row 1 1 5, mk_row 1 2 6]"
    by (simp add: sort_cmd_unfold keep_of_def median_def mk_row_simps)
  have b: "sort_cmd [mk_row 2 2 8, mk_row 1 2 7] = Inr [mk_row 1 2 7, mk_row 2 2 8]"
    by (simp add: sort_cmd_unfold keep_of_def median_def mk_row_simps)
  note inst = match_key_intersection [of "[mk_row 1 1 5, mk_row 1 2 6]"
      "[mk_row 1 1 5, mk_row 1 2 6]" "[mk_row 2 2 8, mk_row 1 2 7]"
      "[mk_row 1 2 7, mk_row 2 2 8]"]
  from inst a b have d: "distinct (map key [mk_row 1 1 5, mk_row 1 2 6]) \<and>
   distinct (map key [mk_row 1 2 7, mk_row 2 2 8])" by blast
  with inst have "match [mk_row 1 1 5, mk_row 1 2 6] [mk_row 1 2 7, mk_row 2 2 8] =
     ([mk_row 1 2 6], [mk_row 1 2 7])"
    by (simp add: mk_row_simps)
  with a b d show ?thesis by blast
qed

section \<open>Properties of the block numbers\<close>


lemma find_block_nonzero:
  assumes "dx \<noteq> 0" and "dy \<noteq> 0" and "dz \<noteq> 0"
  shows "find_block dx dy dz nx ny lat lon z =
     Inr ((py_round (z / dz) + 1 - 1) * nx * ny + (py_round ((90 - lat) / dy) + 1 - 1) * nx
          + (py_round (norm_lon lon / dx) + 1))"
  using assms by (simp add: find_block_def py_div_def Let_def)




text \<open>
  Claim C6 says that the normalised longitude lies in the half-open interval from 0 to
  360, 360 excluded, also for the longitude 0. The longitude 0 is not greater than 0,
  so 360 is added to it: its normalised value is 360.
\<close>

theorem norm_lon_half_open_counterexample:
  "\<not> (0 \<le> norm_lon 0 \<and> norm_lon 0 < 360)"
  by (simp add: norm_lon_def)

text \<open>
  Claim C6, amended. For a longitude above -360 and at most 360, so for every
  geographic longitude, the normalised longitude is above 0 and at most 360; with a
  positive \<open>nx\<close> the quotient that is rounded is positive, so no negative value reaches
  the index formula. The longitude 0 becomes 360, -179.99 becomes 180.01, and 180 stays.
\<close>

theorem norm_lon_range:
  "(- 360 < lon \<and> lon \<le> 360 \<longrightarrow> 0 < norm_lon lon \<and> norm_lon lon \<le> 360) \<and>
   (- 360 < lon \<and> 0 < nx \<longrightarrow> 0 < norm_lon lon / (360 / of_int nx)) \<and>
   norm_lon 0 = 360 \<and> norm_lon (- 179.99) = 180.01 \<and> norm_lon 180 = 180"
  by (auto simp: norm_lon_def)

theorem norm_lon_range_witness:
  "- 360 < (- 179.99 :: real) \<and> (- 179.99 :: real) \<le> 360 \<and> (0::int) < 1440 \<and>
   0 < norm_lon (- 179.99) \<and> norm_lon (- 179.99) \<le> 360 \<and>
   0 < norm_lon (- 179.99) / (360 / of_int 1440)"
  using norm_lon_range [of "- 179.99" 1440] by simp

section \<open>Properties of gathering arrivals\<close>

lemma py_split_PS: "py_split ''P S'' = [''P'', ''S'']"
  by (simp add: py_split_def is_space_def)

lemma for_each_append:
  "for_each body (xs @ ys) st =
     (case for_each body xs st of
        (st', Some e) \<Rightarrow> (st', Some e)
      | (st', None) \<Rightarrow> for_each body ys st')"
proof (induction xs arbitrary: st)
  case Nil
  then show ?case by simp
next
  case (Cons a xs)
  show ?case
  proof (cases "body a st")
    case (Pair st1 r)
    then show ?thesis using Cons.IH [of st1] by (cases r) simp_all
  qed
qed

lemma for_each_inv:
  assumes "\<And>a s. a \<in> set xs \<Longrightarrow> I s \<Longrightarrow> I (fst (body a s))" and "I st"
  shows "I (fst (for_each body xs st))"
  using assms
proof (induction xs arbitrary: st)
  case Nil
  then show ?case by simp
next
  case (Cons a xs)
  have step: "I (fst (body a st))" using Cons.prems by simp
  show ?case
  proof (cases "body a st")
    case (Pair st1 r)
    with step have I1: "I st1" by simp
    show ?thesis
    proof (cases r)
      case None
      have "I (fst (for_each body xs st1))"
        using Cons.IH [of st1] Cons.prems(1) I1 by simp
      with Pair None show ?thesis by simp
    next
      case (Some e)
      with Pair I1 show ?thesis by simp
    qed
  qed
qed

lemma process_arrival_cases:
  "process_arrival l2d stations wave_type p_type dx dy dz nx ny evn origin eb arr st = (st, None) \<or>
   (\<exists>e. process_arrival l2d stations wave_type p_type dx dy dz nx ny evn origin eb arr st = (st, Some e)) \<or>
   (\<exists>sta sb. stations (station_code arr) = Some sta \<and>
      l2d (latitude origin) (longitude origin) (sta_latitude sta) (sta_longitude sta) \<le> 90 \<and>
      find_block dx dy dz nx ny (sta_latitude sta) (sta_longitude sta) 0 = Inr sb \<and>
      phase arr \<in> set (py_split wave_type) \<and>
      process_arrival l2d stations wave_type p_type dx dy dz nx ny evn origin eb arr st =
        (if phase arr = p_type
         then st\<lparr>p_rows := p_rows st @
                [arrival_row eb sb evn origin sta
                   (l2d (latitude origin) (longitude origin) (sta_latitude sta) (sta_longitude sta))
                   p_type arr]\<rparr>
         else st\<lparr>s_rows := s_rows st @
                [arrival_row eb sb evn origin sta
                   (l2d (latitude origin) (longitude origin) (sta_latitude sta) (sta_longitude sta))
                   p_type arr]\<rparr>, None))"
  by (auto simp: process_arrival_def Let_def split: option.splits sum.splits)

lemma process_arrival_inv:
  assumes new: "\<And>sta sb. stations (station_code arr) = Some sta \<Longrightarrow>
      l2d (latitude origin) (longitude origin) (sta_latitude sta) (sta_longitude sta) \<le> 90 \<Longrightarrow>
      find_block dx dy dz nx ny (sta_latitude sta) (sta_longitude sta) 0 = Inr sb \<Longrightarrow>
      phase arr \<in> set (py_split wave_type) \<Longrightarrow>
      (phase arr = p_type \<longrightarrow> QP (arrival_row eb sb evn origin sta
         (l2d (latitude origin) (longitude origin) (sta_latitude sta) (sta_longitude sta)) p_type arr)) \<and>
      (phase arr \<noteq> p_type \<longrightarrow> QS (arrival_row eb sb evn origin sta
         (l2d (latitude origin) (longitude origin) (sta_latitude sta) (sta_longitude sta)) p_type arr))"
    and old: "list_all QP (p_rows st) \<and> list_all QS (s_rows st)"
  shows "list_all QP (p_rows (fst (process_arrival l2d stations wave_type p_type dx dy dz nx ny
            evn origin eb arr st))) \<and>
         list_all QS (s_rows (fst (process_arrival l2d stations wave_type p_type dx dy dz nx ny
            evn origin eb arr st)))"
proof -
  let ?res = "process_arrival l2d stations wave_type p_type dx dy dz nx ny evn origin eb arr st"
  from process_arrival_cases [of l2d stations wave_type p_type dx dy dz nx ny evn origin eb arr st]
  consider (same) "fst ?res = st"
    | (emit) sta sb where "stations (station_code arr) = Some sta"
        "l2d (latitude origin) (longitude origin) (sta_latitude sta) (sta_longitude sta) \<le> 90"
        "find_block dx dy dz nx ny (sta_latitude sta) (sta_longitude sta) 0 = Inr sb"
        "phase arr \<in> set (py_split wave_type)"
        "?res = (if phase arr = p_type
         then st\<lparr>p_rows := p_rows st @
                [arrival_row eb sb evn origin sta
                   (l2d (latitude origin) (longitude origin) (sta_latitude sta) (sta_longitude sta))
                   p_type arr]\<rparr>
         else st\<lparr>s_rows := s_rows st @
                [arrival_row eb sb evn origin sta
                   (l2d (latitude origin) (longitude origin) (sta_latitude sta) (sta_longitude sta))
                   p_type arr]\<rparr>, None)"
    by (metis fst_conv)
  then show ?thesis
  proof cases
    case same
    with old show ?thesis by simp
  next
    case emit
    from new [OF emit(1-4)] old show ?thesis unfolding emit(5) by simp
  qed
qed

lemma process_event_cases:
  "fst (process_event l2d event stations st nx ny dz wave_type) = st \<or>
   (\<exists>p_type s_type origin eb evn.
      py_split wave_type = [p_type, s_type] \<and> preferred_origin event = Some origin \<and>
      nx \<noteq> 0 \<and> ny \<noteq> 0 \<and>
      find_block (360 / of_int nx) (180 / of_int ny) dz nx ny
        (latitude origin) (longitude origin) (depth origin) = Inr eb \<and>
      process_event l2d event stations st nx ny dz wave_type =
        for_each (\<lambda>a s. case a of
                     None \<Rightarrow> (s, Some AttributeError)
                   | Some arr \<Rightarrow>
                       process_arrival l2d stations wave_type p_type (360 / of_int nx)
                         (180 / of_int ny) dz nx ny evn origin eb arr s)
          (arrivals origin) st)"
  by (auto simp: process_event_def py_div_def Let_def
      split: list.splits option.splits sum.splits if_splits)

lemma process_event_inv:
  assumes new: "\<And>p_type s_type origin eb evn arr sta sb.
      py_split wave_type = [p_type, s_type] \<Longrightarrow> preferred_origin event = Some origin \<Longrightarrow>
      nx \<noteq> 0 \<Longrightarrow> ny \<noteq> 0 \<Longrightarrow>
      find_block (360 / of_int nx) (180 / of_int ny) dz nx ny
        (latitude origin) (longitude origin) (depth origin) = Inr eb \<Longrightarrow>
      stations (station_code arr) = Some sta \<Longrightarrow>
      l2d (latitude origin) (longitude origin) (sta_latitude sta) (sta_longitude sta) \<le> 90 \<Longrightarrow>
      find_block (360 / of_int nx) (180 / of_int ny) dz nx ny
        (sta_latitude sta) (sta_longitude sta) 0 = Inr sb \<Longrightarrow>
      (phase arr = p_type \<longrightarrow> QP (arrival_row eb sb evn origin sta
         (l2d (latitude origin) (longitude origin) (sta_latitude sta) (sta_longitude sta)) p_type arr)) \<and>
      (phase arr \<noteq> p_type \<longrightarrow> QS (arrival_row eb sb evn origin sta
         (l2d (latitude origin) (longitude origin) (sta_latitude sta) (sta_longitude sta)) p_type arr))"
    and old: "list_all QP (p_rows st) \<and> list_all QS (s_rows st)"
  shows "list_all QP (p_rows (fst (process_event l2d event stations st nx ny dz wave_type))) \<and>
         list_all QS (s_rows (fst (process_event l2d event stations st nx ny dz wave_type)))"
proof -
  let ?I = "\<lambda>s::sinks. list_all QP (p_rows s) \<and> list_all QS (s_rows s)"
  from process_event_cases [of l2d event stations st nx ny dz wave_type]
  show ?thesis
  proof
    assume "fst (process_event l2d event stations st nx ny dz wave_type) = st"
    with old show ?thesis by simp
  next
    assume "\<exists>p_type s_type origin eb evn.
      py_split wave_type = [p_type, s_type] \<and> preferred_origin event = Some origin \<and>
      nx \<noteq> 0 \<and> ny \<noteq> 0 \<and>
      find_block (360 / of_int nx) (180 / of_int ny) dz nx ny
        (latitude origin) (longitude origin) (depth origin) = Inr eb \<and>
      process_event l2d event stations st nx ny dz wave_type =
        for_each (\<lambda>a s. case a of
                     None \<Rightarrow> (s, Some AttributeError)
                   | Some arr \<Rightarrow>
                       process_arrival l2d stations wave_type p_type (360 / of_int nx)
                         (180 / of_int ny) dz nx ny evn origin eb arr s)
          (arrivals origin) st"
    then obtain p_type s_type origin eb evn where
      h: "py_split wave_type = [p_type, s_type]" "preferred_origin event = Some origin"
        "nx \<noteq> 0" "ny \<noteq> 0"
        "find_block (360 / of_int nx) (180 / of_int ny) dz nx ny
           (latitude origin) (longitude origin) (depth origin) = Inr eb"
      and run: "process_event l2d event stations st nx ny dz wave_type =
        for_each (\<lambda>a s. case a of
                     None \<Rightarrow> (s, Some AttributeError)
                   | Some arr \<Rightarrow>
                       process_arrival l2d stations wave_type p_type (360 / of_int nx)
                         (180 / of_int ny) dz nx ny evn origin eb arr s)
          (arrivals origin) st"
      by blast
    have "?I (fst (for_each (\<lambda>a s. case a of
                     None \<Rightarrow> (s, Some AttributeError)
                   | Some arr \<Rightarrow>
                       process_arrival l2d stations wave_type p_type (360 / of_int nx)
                         (180 / of_int ny) dz nx ny evn origin eb arr s)
          (arrivals origin) st))"
    proof (rule for_each_inv [where I = ?I])
      show "?I st" by (rule old)
    next
      fix a :: "Arrival option" and s :: sinks
      assume s: "?I s"
      show "?I (fst (case a of
                     None \<Rightarrow> (s, Some AttributeError)
                   | Some arr \<Rightarrow>
                       process_arrival l2d stations wave_type p_type (360 / of_int nx)
                         (180 / of_int ny) dz nx ny evn origin eb arr s))"
      proof (cases a)
        case None
        with s show ?thesis by simp
      next
        case (Some arr)
        from s have "?I (fst (process_arrival l2d stations wave_type p_type (360 / of_int nx)
          (180 / of_int ny) dz nx ny evn origin eb arr s))"
          by (rule process_arrival_inv [rotated]) (rule new [OF h])
        with Some show ?thesis by simp
      qed
    qed
    with run show ?thesis by simp
  qed
qed

lemma process_many_events_inv:
  assumes new: "\<And>event p_type s_type origin eb evn arr sta sb.
      event \<in> set events \<Longrightarrow>
      py_split wave_type = [p_type, s_type] \<Longrightarrow> preferred_origin event = Some origin \<Longrightarrow>
      nx \<noteq> 0 \<Longrightarrow> ny \<noteq> 0 \<Longrightarrow>
      find_block (360 / of_int nx) (180 / of_int ny) dz nx ny
        (latitude origin) (longitude origin) (depth origin) = Inr eb \<Longrightarrow>
      stations (station_code arr) = Some sta \<Longrightarrow>
      l2d (latitude origin) (longitude origin) (sta_latitude sta) (sta_longitude sta) \<le> 90 \<Longrightarrow>
      find_block (360 / of_int nx) (180 / of_int ny) dz nx ny
        (sta_latitude sta) (sta_longitude sta) 0 = Inr sb \<Longrightarrow>
      (phase arr = p_type \<longrightarrow> QP (arrival_row eb sb evn origin sta
         (l2d (latitude origin) (longitude origin) (sta_latitude sta) (sta_longitude sta)) p_type arr)) \<and>
      (phase arr \<noteq> p_type \<longrightarrow> QS (arrival_row eb sb evn origin sta
         (l2d (latitude origin) (longitude origin) (sta_latitude sta) (sta_longitude sta)) p_type arr))"
  shows "list_all QP (p_rows (fst (process_many_events l2d events nx ny dz stations wave_type))) \<and>
         list_all QS (s_rows (fst (process_many_events l2d events nx ny dz stations wave_type)))"
proof -
  let ?I = "\<lambda>s::sinks. list_all QP (p_rows s) \<and> list_all QS (s_rows s)"
  have loop: "?I (fst (for_each (\<lambda>e st. process_event l2d e stations st nx ny dz wave_type) events
      \<lparr>p_rows = [], s_rows = []\<rparr>))"
  proof (rule for_each_inv [where I = ?I])
    show "?I \<lparr>p_rows = [], s_rows = []\<rparr>" by simp
  next
    fix e s
    assume e: "e \<in> set events" and "?I s"
    from this(2) show "?I (fst (process_event l2d e stations s nx ny dz wave_type))"
      by (rule process_event_inv [rotated]) (rule new [OF e])
  qed
  show ?thesis
  proof (cases "\<exists>p_type s_type. py_split wave_type = [p_type, s_type]")
    case True
    then obtain p_type s_type where "py_split wave_type = [p_type, s_type]" by blast
    then have "process_many_events l2d events nx ny dz stations wave_type =
      for_each (\<lambda>e st. process_event l2d e stations st nx ny dz wave_type) events
        \<lparr>p_rows = [], s_rows = []\<rparr>"
      by (simp add: process_many_events_def)
    with loop show ?thesis by simp
  next
    case False
    then have "process_many_events l2d events nx ny dz stations wave_type =
      (\<lparr>p_rows = [], s_rows = []\<rparr>, Some ValueError)"
      by (auto simp: process_many_events_def split: list.splits)
    then show ?thesis by simp
  qed
qed

lemma process_arrival_arrivals_update:
  "process_arrival l2d stations wave_type p_type dx dy dz nx ny evn (origin\<lparr>arrivals := as\<rparr>) eb arr st =
   process_arrival l2d stations wave_type p_type dx dy dz nx ny evn origin eb arr st"
  by (simp add: process_arrival_def arrival_row_def Let_def split: option.splits sum.splits)

lemma b64_event_numbers:
  "b64 5000000 = Some 5000000" "b64 6000000 = Some 6000000" "b64 7000000 = Some 7000000"
  by (simp_all add: b64_eval)

lemmas run_defs = process_many_events_def process_event_def process_arrival_def arrival_row_def
  find_block_def py_div_def norm_lon_def py_round_def py_int_def Let_def b64_event_numbers
  ex_stations_def ex_arrival_def ex_origin_def ex_event_def ex_event_no_origin_def
  ex_event_no_pick_def

lemma floor_minus_1: "\<lfloor>- 1 :: real\<rfloor> = - 1"
  using floor_of_int [of "- 1", where ?'a = real] by simp

text \<open>
  Claim C5 says that an event that fails is logged and skipped and that the events
  after it are still processed. Nothing in \<^verbatim>\<open>process_many_events\<close> or \<^verbatim>\<open>process_event\<close>
  catches an exception. In a batch of an event without preferred origin followed by a
  good event, the first raises \<^verbatim>\<open>AttributeError\<close>, the batch ends with that exception and
  no row is written, although the good event alone gives a row.
\<close>

theorem failing_event_skipped_counterexample:
  "process_many_events (\<lambda>a b c d. 0) [ex_event_no_origin, ex_event 10000] 1440 720 25
      ex_stations ''P S'' = (\<lparr>p_rows = [], s_rows = []\<rparr>, Some AttributeError) \<and>
   p_rows (fst (process_many_events (\<lambda>a b c d. 0) [ex_event 10000] 1440 720 25
      ex_stations ''P S'')) \<noteq> []"
  by (simp add: run_defs py_split_PS)

text \<open>
  Claim C5, amended. An exception of \<^verbatim>\<open>process_event\<close> ends the batch, whatever the
  exception: when the events before an event have been processed without an exception
  and \<^verbatim>\<open>process_event\<close> raises on that event, the batch ends with that exception and
  with the rows written up to that moment, and no event after it is processed. The
  failing event is processed up to the point of its failure. An event without
  preferred origin (and with a finite event number) raises \<^verbatim>\<open>AttributeError\<close> before it
  writes any row. An event with an arrival that has no pick raises \<^verbatim>\<open>AttributeError\<close>
  when the loop reaches that arrival: the rows of the arrivals before it, which are the
  rows of the event cut off before that arrival, have been written by then.
\<close>

theorem failing_event_aborts_batch:
  "(process_many_events l2d pre nx ny dz stations wave_type = (st, None) \<and>
    process_event l2d e stations st nx ny dz wave_type = (st', Some err) \<longrightarrow>
      process_many_events l2d (pre @ e # post) nx ny dz stations wave_type = (st', Some err)) \<and>
   (py_split wave_type = [p_type, s_type] \<and> b64 (creation_time e0 * 1000000) \<noteq> None \<and>
    preferred_origin e0 = None \<longrightarrow>
      process_event l2d e0 stations st0 nx ny dz wave_type = (st0, Some AttributeError)) \<and>
   (preferred_origin e1 = Some origin \<and> arrivals origin = before @ None # rest \<and>
    process_event l2d (e1\<lparr>preferred_origin := Some (origin\<lparr>arrivals := before\<rparr>)\<rparr>) stations st1
      nx ny dz wave_type = (st1', None) \<longrightarrow>
      process_event l2d e1 stations st1 nx ny dz wave_type = (st1', Some AttributeError))"
proof (intro conjI impI, goal_cases)
  case 1
  then have pre: "process_many_events l2d pre nx ny dz stations wave_type = (st, None)"
    and ev: "process_event l2d e stations st nx ny dz wave_type = (st', Some err)" by simp_all
  let ?body = "\<lambda>e st. process_event l2d e stations st nx ny dz wave_type"
  from pre obtain p s where w: "py_split wave_type = [p, s]"
    by (auto simp: process_many_events_def split: list.splits)
  have "for_each ?body pre \<lparr>p_rows = [], s_rows = []\<rparr> = (st, None)"
    using pre w by (simp add: process_many_events_def)
  then have "for_each ?body (pre @ e # post) \<lparr>p_rows = [], s_rows = []\<rparr> = (st', Some err)"
    using ev by (simp add: for_each_append)
  then show ?case using w by (simp add: process_many_events_def)
next
  case 2
  then show ?case by (auto simp: process_event_def)
next
  case 3
  have body: "(\<lambda>a s. case a of
                 None \<Rightarrow> (s, Some AttributeError)
               | Some arr \<Rightarrow> process_arrival l2d stations wave_type p dx dy dz nx ny evn
                                (origin\<lparr>arrivals := before\<rparr>) eb arr s) =
              (\<lambda>a s. case a of
                 None \<Rightarrow> (s, Some AttributeError)
               | Some arr \<Rightarrow> process_arrival l2d stations wave_type p dx dy dz nx ny evn
                                origin eb arr s)" for p dx dy evn eb
    by (intro ext) (simp add: process_arrival_arrivals_update split: option.splits)
  from 3 show ?case
    by (auto simp: process_event_def for_each_append body Let_def
        split: list.splits option.splits sum.splits)
qed

theorem failing_event_aborts_batch_witness:
  "snd (process_many_events (\<lambda>a b c d. 0) [ex_event 10000] 1440 720 25 ex_stations ''P S'') = None \<and>
   snd (process_event (\<lambda>a b c d. 0) ex_event_no_pick ex_stations
     (fst (process_many_events (\<lambda>a b c d. 0) [ex_event 10000] 1440 720 25 ex_stations ''P S''))
     1440 720 25 ''P S'') = Some AttributeError \<and>
   snd (process_many_events (\<lambda>a b c d. 0) ([ex_event 10000] @ ex_event_no_pick # [ex_event 10000])
     1440 720 25 ex_stations ''P S'') = Some AttributeError \<and>
   length (p_rows (fst (process_many_events (\<lambda>a b c d. 0)
     ([ex_event 10000] @ ex_event_no_pick # [ex_event 10000]) 1440 720 25 ex_stations ''P S''))) = 2 \<and>
   length (p_rows (fst (process_many_events (\<lambda>a b c d. 0)
     [ex_event 10000, ex_event 10000, ex_event 10000] 1440 720 25 ex_stations ''P S''))) = 3 \<and>
   py_split ''P S'' = [''P'', ''S''] \<and> b64 (creation_time ex_event_no_origin * 1000000) \<noteq> None \<and>
   preferred_origin ex_event_no_origin = None \<and>
   process_event (\<lambda>a b c d. 0) ex_event_no_origin ex_stations \<lparr>p_rows = [], s_rows = []\<rparr>
     1440 720 25 ''P S'' = (\<lparr>p_rows = [], s_rows = []\<rparr>, Some AttributeError) \<and>
   preferred_origin ex_event_no_pick = Some ((ex_origin 10000)\<lparr>arrivals := [Some ex_arrival, None]\<rparr>) \<and>
   snd (process_event (\<lambda>a b c d. 0)
     (ex_event_no_pick\<lparr>preferred_origin := Some ((ex_origin 10000)\<lparr>arrivals := [Some ex_arrival]\<rparr>)\<rparr>)
     ex_stations \<lparr>p_rows = [], s_rows = []\<rparr> 1440 720 25 ''P S'') = None \<and>
   process_event (\<lambda>a b c d. 0) ex_event_no_pick ex_stations \<lparr>p_rows = [], s_rows = []\<rparr>
     1440 720 25 ''P S'' =
     (fst (process_event (\<lambda>a b c d. 0)
        (ex_event_no_pick\<lparr>preferred_origin := Some ((ex_origin 10000)\<lparr>arrivals := [Some ex_arrival]\<rparr>)\<rparr>)
        ex_stations \<lparr>p_rows = [], s_rows = []\<rparr> 1440 720 25 ''P S''), Some AttributeError)"
proof -
  let ?L = "\<lambda>(a::real) (b::real) (c::real) (d::real). 0 :: real"
  let ?init = "\<lparr>p_rows = [], s_rows = []\<rparr>"
  let ?done = "fst (process_many_events ?L [ex_event 10000] 1440 720 25 ex_stations ''P S'')"
  let ?fail = "fst (process_event ?L ex_event_no_pick ex_stations ?done 1440 720 25 ''P S'')"
  let ?o = "(ex_origin 10000)\<lparr>arrivals := [Some ex_arrival, None]\<rparr>"
  let ?cut = "ex_event_no_pick\<lparr>preferred_origin := Some (?o\<lparr>arrivals := [Some ex_arrival]\<rparr>)\<rparr>"
  let ?cutst = "fst (process_event ?L ?cut ex_stations ?init 1440 720 25 ''P S'')"
  note inst = failing_event_aborts_batch [where ?l2d = ?L and pre = "[ex_event 10000]"
      and nx = 1440 and ny = 720 and dz = 25 and stations = ex_stations and wave_type = "''P S''"
      and st = ?done and e = ex_event_no_pick and ?st' = ?fail and err = AttributeError
      and post = "[ex_event 10000]" and p_type = "''P''" and s_type = "''S''"
      and ?e0.0 = ex_event_no_origin and ?st0.0 = ?init and ?e1.0 = ex_event_no_pick
      and origin = ?o and before = "[Some ex_arrival]" and rest = "[]" and ?st1.0 = ?init
      and ?st1' = ?cutst]
  have a: "snd (process_many_events ?L [ex_event 10000] 1440 720 25 ex_stations ''P S'') = None"
    by (simp add: run_defs py_split_PS)
  then have a': "process_many_events ?L [ex_event 10000] 1440 720 25 ex_stations ''P S'' = (?done, None)"
    by (metis prod.collapse)
  have b: "snd (process_event ?L ex_event_no_pick ex_stations ?done 1440 720 25 ''P S'') =
      Some AttributeError"
    by (simp add: run_defs py_split_PS)
  then have b': "process_event ?L ex_event_no_pick ex_stations ?done 1440 720 25 ''P S'' =
      (?fail, Some AttributeError)"
    by (metis prod.collapse)
  from inst a' b'
  have c: "process_many_events ?L ([ex_event 10000] @ ex_event_no_pick # [ex_event 10000])
      1440 720 25 ex_stations ''P S'' = (?fail, Some AttributeError)" by blast
  have d: "length (p_rows ?fail) = 2" by (simp add: run_defs py_split_PS)
  have d3: "length (p_rows (fst (process_many_events ?L
     [ex_event 10000, ex_event 10000, ex_event 10000] 1440 720 25 ex_stations ''P S''))) = 3"
    by (simp add: run_defs py_split_PS)
  have e: "b64 (creation_time ex_event_no_origin * 1000000) \<noteq> None"
    "preferred_origin ex_event_no_origin = None"
    by (simp_all add: ex_event_no_origin_def b64_event_numbers)
  from inst py_split_PS e
  have f: "process_event ?L ex_event_no_origin ex_stations ?init 1440 720 25 ''P S'' =
      (?init, Some AttributeError)" by blast
  have g: "preferred_origin ex_event_no_pick = Some ?o" "arrivals ?o = [Some ex_arrival] @ None # []"
    by (simp_all add: ex_event_no_pick_def ex_origin_def)
  have h: "snd (process_event ?L ?cut ex_stations ?init 1440 720 25 ''P S'') = None"
    by (simp add: run_defs py_split_PS)
  then have h': "process_event ?L ?cut ex_stations ?init 1440 720 25 ''P S'' = (?cutst, None)"
    by (metis prod.collapse)
  from inst g h'
  have i: "process_event ?L ex_event_no_pick ex_stations ?init 1440 720 25 ''P S'' =
      (?cutst, Some AttributeError)" by blast
  from a b c d d3 py_split_PS e f g(1) h i show ?thesis by simp
qed

lemma arrival_row_simps:
  "locations2degrees (arrival_row eb sb evn origin sta deg p_type arr) = deg"
  "source_block (arrival_row eb sb evn origin sta deg p_type arr) = eb"
  "station_block (arrival_row eb sb evn origin sta deg p_type arr) = sb"
  "P_or_S (arrival_row eb sb evn origin sta deg p_type arr) = (if phase arr = p_type then 1 else 2)"
  by (simp_all add: arrival_row_def)

text \<open>
  Claim C7. For an arrival of a known station and of one of the two wave types (on a
  grid whose segment lengths are not zero), a distance of exactly 90 degrees writes a
  row, with that distance; a distance above 90 degrees writes nothing. So
  \<^verbatim>\<open>process_event\<close> keeps every row at or below 90 degrees when the rows before were,
  and every row a batch writes has a distance of at most 90 degrees.
\<close>

theorem distance_gate:
  "(stations (station_code arr) = Some sta \<and> phase arr \<in> set (py_split wave_type) \<and>
    dx \<noteq> 0 \<and> dy \<noteq> 0 \<and> dz \<noteq> 0 \<and>
    l2d (latitude origin) (longitude origin) (sta_latitude sta) (sta_longitude sta) = 90 \<longrightarrow>
      (\<exists>row. locations2degrees row = 90 \<and>
         process_arrival l2d stations wave_type p_type dx dy dz nx ny evn origin eb arr st =
           (if phase arr = p_type then st\<lparr>p_rows := p_rows st @ [row]\<rparr>
            else st\<lparr>s_rows := s_rows st @ [row]\<rparr>, None))) \<and>
   (stations (station_code arr) = Some sta \<and>
    90 < l2d (latitude origin) (longitude origin) (sta_latitude sta) (sta_longitude sta) \<longrightarrow>
      process_arrival l2d stations wave_type p_type dx dy dz nx ny evn origin eb arr st = (st, None)) \<and>
   (list_all (\<lambda>r. locations2degrees r \<le> 90) (p_rows st @ s_rows st) \<longrightarrow>
      list_all (\<lambda>r. locations2degrees r \<le> 90)
        (p_rows (fst (process_event l2d event stations st nx ny dz wave_type)) @
         s_rows (fst (process_event l2d event stations st nx ny dz wave_type)))) \<and>
   list_all (\<lambda>r. locations2degrees r \<le> 90)
     (p_rows (fst (process_many_events l2d events nx ny dz stations wave_type)) @
      s_rows (fst (process_many_events l2d events nx ny dz stations wave_type)))"
proof (intro conjI impI)
  assume h: "stations (station_code arr) = Some sta \<and> phase arr \<in> set (py_split wave_type) \<and>
    dx \<noteq> 0 \<and> dy \<noteq> 0 \<and> dz \<noteq> 0 \<and>
    l2d (latitude origin) (longitude origin) (sta_latitude sta) (sta_longitude sta) = 90"
  then obtain sb where "find_block dx dy dz nx ny (sta_latitude sta) (sta_longitude sta) 0 = Inr sb"
    by (simp add: find_block_nonzero)
  with h have "process_arrival l2d stations wave_type p_type dx dy dz nx ny evn origin eb arr st =
      (if phase arr = p_type
       then st\<lparr>p_rows := p_rows st @ [arrival_row eb sb evn origin sta 90 p_type arr]\<rparr>
       else st\<lparr>s_rows := s_rows st @ [arrival_row eb sb evn origin sta 90 p_type arr]\<rparr>, None)"
    by (simp add: process_arrival_def Let_def)
  moreover have "locations2degrees (arrival_row eb sb evn origin sta 90 p_type arr) = 90"
    by (simp add: arrival_row_simps)
  ultimately show "\<exists>row. locations2degrees row = 90 \<and>
         process_arrival l2d stations wave_type p_type dx dy dz nx ny evn origin eb arr st =
           (if phase arr = p_type then st\<lparr>p_rows := p_rows st @ [row]\<rparr>
            else st\<lparr>s_rows := s_rows st @ [row]\<rparr>, None)"
    by blast
next
  assume "stations (station_code arr) = Some sta \<and>
    90 < l2d (latitude origin) (longitude origin) (sta_latitude sta) (sta_longitude sta)"
  then show "process_arrival l2d stations wave_type p_type dx dy dz nx ny evn origin eb arr st = (st, None)"
    by (simp add: process_arrival_def Let_def)
next
  assume "list_all (\<lambda>r. locations2degrees r \<le> 90) (p_rows st @ s_rows st)"
  then have "list_all (\<lambda>r. locations2degrees r \<le> 90) (p_rows st) \<and>
      list_all (\<lambda>r. locations2degrees r \<le> 90) (s_rows st)" by simp
  then have "list_all (\<lambda>r. locations2degrees r \<le> 90)
        (p_rows (fst (process_event l2d event stations st nx ny dz wave_type))) \<and>
      list_all (\<lambda>r. locations2degrees r \<le> 90)
        (s_rows (fst (process_event l2d event stations st nx ny dz wave_type)))"
    by (rule process_event_inv [rotated]) (simp add: arrival_row_simps)
  then show "list_all (\<lambda>r. locations2degrees r \<le> 90)
        (p_rows (fst (process_event l2d event stations st nx ny dz wave_type)) @
         s_rows (fst (process_event l2d event stations st nx ny dz wave_type)))" by simp
next
  have "list_all (\<lambda>r. locations2degrees r \<le> 90)
        (p_rows (fst (process_many_events l2d events nx ny dz stations wave_type))) \<and>
      list_all (\<lambda>r. locations2degrees r \<le> 90)
        (s_rows (fst (process_many_events l2d events nx ny dz stations wave_type)))"
    by (rule process_many_events_inv) (simp add: arrival_row_simps)
  then show "list_all (\<lambda>r. locations2degrees r \<le> 90)
     (p_rows (fst (process_many_events l2d events nx ny dz stations wave_type)) @
      s_rows (fst (process_many_events l2d events nx ny dz stations wave_type)))" by simp
qed

theorem distance_gate_witness:
  "(\<exists>row. locations2degrees row = 90 \<and>
      process_arrival (\<lambda>a b c d. 90) ex_stations ''P S'' ''P'' (1 / 4) (1 / 4) 25 1440 720 5000000
        (ex_origin 10000) 415354121 ex_arrival \<lparr>p_rows = [], s_rows = []\<rparr> =
        (\<lparr>p_rows = [row], s_rows = []\<rparr>, None)) \<and>
   process_arrival (\<lambda>a b c d. 90.01) ex_stations ''P S'' ''P'' (1 / 4) (1 / 4) 25 1440 720 5000000
     (ex_origin 10000) 415354121 ex_arrival \<lparr>p_rows = [], s_rows = []\<rparr> =
     (\<lparr>p_rows = [], s_rows = []\<rparr>, None) \<and>
   process_many_events (\<lambda>a b c d. 90) [ex_event 10000] 1440 720 25 ex_stations ''P S'' \<noteq>
     (\<lparr>p_rows = [], s_rows = []\<rparr>, None) \<and>
   process_many_events (\<lambda>a b c d. 90.01) [ex_event 10000] 1440 720 25 ex_stations ''P S'' =
     (\<lparr>p_rows = [], s_rows = []\<rparr>, None)"
proof -
  let ?sta = "\<lparr>sta_latitude = - 20, sta_longitude = 130\<rparr>"
  let ?st = "\<lparr>p_rows = [], s_rows = []\<rparr>"
  have s: "ex_stations (station_code ex_arrival) = Some ?sta"
    by (simp add: ex_stations_def ex_arrival_def)
  have p: "phase ex_arrival \<in> set (py_split ''P S'')" "phase ex_arrival = ''P''"
    by (simp_all add: ex_arrival_def py_split_PS)
  have a: "\<exists>row. locations2degrees row = 90 \<and>
      process_arrival (\<lambda>a b c d. 90) ex_stations ''P S'' ''P'' (1 / 4) (1 / 4) 25 1440 720 5000000
        (ex_origin 10000) 415354121 ex_arrival ?st = (\<lparr>p_rows = [row], s_rows = []\<rparr>, None)"
    using distance_gate [of ex_stations ex_arrival ?sta "''P S''" "1 / 4" "1 / 4" 25
        "\<lambda>a b c d. 90" "ex_origin 10000" "''P''" 1440 720 5000000 415354121 ?st] s p
    by simp
  have b: "process_arrival (\<lambda>a b c d. 90.01) ex_stations ''P S'' ''P'' (1 / 4) (1 / 4) 25 1440 720
      5000000 (ex_origin 10000) 415354121 ex_arrival ?st = (?st, None)"
    using distance_gate [of ex_stations ex_arrival ?sta "''P S''" "1 / 4" "1 / 4" 25
        "\<lambda>a b c d. 90.01" "ex_origin 10000" "''P''" 1440 720 5000000 415354121 ?st] s
    by simp
  have c: "process_many_events (\<lambda>a b c d. 90) [ex_event 10000] 1440 720 25 ex_stations ''P S'' \<noteq>
     (?st, None)"
    by (simp add: run_defs py_split_PS)
  have d: "process_many_events (\<lambda>a b c d. 90.01) [ex_event 10000] 1440 720 25 ex_stations ''P S'' =
     (?st, None)"
    by (simp add: run_defs py_split_PS)
  from a b c d show ?thesis by blast
qed

lemma py_round_nonneg: "0 \<le> x \<Longrightarrow> 0 \<le> py_round x"
proof -
  assume "0 \<le> x"
  then have "0 \<le> \<lfloor>x\<rfloor>" by simp
  then show ?thesis by (simp add: py_round_def Let_def)
qed

lemma find_block_positive:
  assumes "0 < nx" and "0 < ny" and "0 < dz" and "lat \<le> 90" and "- 360 < lon" and "0 \<le> z"
    and fb: "find_block (360 / of_int nx) (180 / of_int ny) dz nx ny lat lon z = Inr b"
  shows "0 < b"
proof -
  have dx: "0 < 360 / real_of_int nx" and dy: "0 < 180 / real_of_int ny"
    using assms(1,2) by simp_all
  have "0 \<le> norm_lon lon" using assms(5) by (simp add: norm_lon_def)
  then have i: "0 \<le> py_round (norm_lon lon / (360 / real_of_int nx))"
    using dx by (intro py_round_nonneg divide_nonneg_pos)
  have j: "0 \<le> py_round ((90 - lat) / (180 / real_of_int ny))"
    using dy assms(4) by (intro py_round_nonneg divide_nonneg_pos) simp_all
  have k: "0 \<le> py_round (z / dz)"
    using assms(3,6) by (intro py_round_nonneg divide_nonneg_pos)
  have b: "b = py_round (z / dz) * nx * ny + py_round ((90 - lat) / (180 / real_of_int ny)) * nx +
      (py_round (norm_lon lon / (360 / real_of_int nx)) + 1)"
    using fb dx dy assms(3) by (simp add: find_block_nonzero)
  have "0 \<le> py_round (z / dz) * nx * ny" using k assms(1,2) by simp
  moreover have "0 \<le> py_round ((90 - lat) / (180 / real_of_int ny)) * nx"
    using j assms(1) by simp
  ultimately show ?thesis using i unfolding b by linarith
qed

text \<open>
  Claim C9 says that every row written has positive block numbers. The block number
  is not checked: an event 25 metres above sea level (depth -25) at latitude -20 and
  longitude 130, on the default grid, gets the source block -402679, and its P arrival
  is written with it.
\<close>

theorem rows_blocks_positive_counterexample:
  "map source_block (p_rows (fst (process_many_events (\<lambda>a b c d. 0) [ex_event (- 25)]
      1440 720 25 ex_stations ''P S''))) = [- 402679] \<and>
   \<not> list_all (\<lambda>r. 0 < source_block r \<and> 0 < station_block r)
      (p_rows (fst (process_many_events (\<lambda>a b c d. 0) [ex_event (- 25)]
         1440 720 25 ex_stations ''P S'')))"
  by (simp add: run_defs py_split_PS floor_minus_1)

text \<open>
  Claim C9, amended. On a grid with positive \<open>nx\<close>, \<open>ny\<close> and \<open>dz\<close>, when every origin has
  a latitude of at most 90, a longitude above -360 and a depth that is not negative, and
  every station a latitude of at most 90 and a longitude above -360, every row a batch
  writes has positive source and station blocks. Whatever the coordinates, the rows of
  the first file have the phase code 1 and those of the second the phase code 2; an
  arrival writes at most one row, to the first file with code 1 when its phase is the
  first wave type, to the second with code 2 when it is the second, and no row when
  its phase is neither.
\<close>

theorem rows_blocks_and_phase_code:
  "(0 < nx \<and> 0 < ny \<and> 0 < dz \<and>
    (\<forall>e\<in>set events. \<forall>origin. preferred_origin e = Some origin \<longrightarrow>
       latitude origin \<le> 90 \<and> - 360 < longitude origin \<and> 0 \<le> depth origin) \<and>
    (\<forall>code sta. stations code = Some sta \<longrightarrow> sta_latitude sta \<le> 90 \<and> - 360 < sta_longitude sta)
    \<longrightarrow>
      list_all (\<lambda>r. 0 < source_block r \<and> 0 < station_block r)
        (p_rows (fst (process_many_events l2d events nx ny dz stations wave_type)) @
         s_rows (fst (process_many_events l2d events nx ny dz stations wave_type)))) \<and>
   list_all (\<lambda>r. P_or_S r = 1)
     (p_rows (fst (process_many_events l2d events nx ny dz stations wave_type))) \<and>
   list_all (\<lambda>r. P_or_S r = 2)
     (s_rows (fst (process_many_events l2d events nx ny dz stations wave_type))) \<and>
   (py_split wave_type = [p_type, s_type] \<longrightarrow>
      (phase arr \<noteq> p_type \<and> phase arr \<noteq> s_type \<longrightarrow>
         fst (process_arrival l2d stations wave_type p_type dx dy dz nx ny evn origin eb arr st) = st) \<and>
      (fst (process_arrival l2d stations wave_type p_type dx dy dz nx ny evn origin eb arr st) = st \<or>
       (\<exists>row. phase arr = p_type \<and> P_or_S row = 1 \<and>
          process_arrival l2d stations wave_type p_type dx dy dz nx ny evn origin eb arr st =
            (st\<lparr>p_rows := p_rows st @ [row]\<rparr>, None)) \<or>
       (\<exists>row. phase arr = s_type \<and> P_or_S row = 2 \<and>
          process_arrival l2d stations wave_type p_type dx dy dz nx ny evn origin eb arr st =
            (st\<lparr>s_rows := s_rows st @ [row]\<rparr>, None))))"
proof (intro conjI impI)
  assume h: "0 < nx \<and> 0 < ny \<and> 0 < dz \<and>
    (\<forall>e\<in>set events. \<forall>origin. preferred_origin e = Some origin \<longrightarrow>
       latitude origin \<le> 90 \<and> - 360 < longitude origin \<and> 0 \<le> depth origin) \<and>
    (\<forall>code sta. stations code = Some sta \<longrightarrow> sta_latitude sta \<le> 90 \<and> - 360 < sta_longitude sta)"
  let ?Q = "\<lambda>r. 0 < source_block r \<and> 0 < station_block r"
  have "list_all ?Q (p_rows (fst (process_many_events l2d events nx ny dz stations wave_type))) \<and>
      list_all ?Q (s_rows (fst (process_many_events l2d events nx ny dz stations wave_type)))"
  proof (rule process_many_events_inv)
    fix event :: Event and p_type s_type :: string and origin :: Origin and eb evn :: int
      and arr :: Arrival and sta :: Station and sb :: int
    assume e: "event \<in> set events" and o: "preferred_origin event = Some origin"
      and eb: "find_block (360 / of_int nx) (180 / of_int ny) dz nx ny
        (latitude origin) (longitude origin) (depth origin) = Inr eb"
      and s: "stations (station_code arr) = Some sta"
      and sb: "find_block (360 / of_int nx) (180 / of_int ny) dz nx ny
        (sta_latitude sta) (sta_longitude sta) 0 = Inr sb"
    from h e o have org: "latitude origin \<le> 90" "- 360 < longitude origin" "0 \<le> depth origin"
      by blast+
    from h s have st: "sta_latitude sta \<le> 90" "- 360 < sta_longitude sta" by blast+
    from h have g: "0 < nx" "0 < ny" "0 < dz" by simp_all
    have "0 < eb" using find_block_positive [OF g org eb] .
    moreover have "0 < sb" using find_block_positive [OF g st _ sb] by simp
    ultimately show "(phase arr = p_type \<longrightarrow>
        ?Q (arrival_row eb sb evn origin sta
          (l2d (latitude origin) (longitude origin) (sta_latitude sta) (sta_longitude sta)) p_type arr)) \<and>
      (phase arr \<noteq> p_type \<longrightarrow>
        ?Q (arrival_row eb sb evn origin sta
          (l2d (latitude origin) (longitude origin) (sta_latitude sta) (sta_longitude sta)) p_type arr))"
      by (simp add: arrival_row_simps)
  qed
  then show "list_all ?Q
        (p_rows (fst (process_many_events l2d events nx ny dz stations wave_type)) @
         s_rows (fst (process_many_events l2d events nx ny dz stations wave_type)))" by simp
next
  have code: "list_all (\<lambda>r. P_or_S r = 1)
       (p_rows (fst (process_many_events l2d events nx ny dz stations wave_type))) \<and>
     list_all (\<lambda>r. P_or_S r = 2)
       (s_rows (fst (process_many_events l2d events nx ny dz stations wave_type)))"
    by (rule process_many_events_inv) (simp add: arrival_row_simps)
  from code show "list_all (\<lambda>r. P_or_S r = 1)
       (p_rows (fst (process_many_events l2d events nx ny dz stations wave_type)))" by simp
  from code show "list_all (\<lambda>r. P_or_S r = 2)
       (s_rows (fst (process_many_events l2d events nx ny dz stations wave_type)))" by simp
next
  assume w: "py_split wave_type = [p_type, s_type]"
    and "phase arr \<noteq> p_type \<and> phase arr \<noteq> s_type"
  then show "fst (process_arrival l2d stations wave_type p_type dx dy dz nx ny evn origin eb arr st) = st"
    by (simp add: process_arrival_def Let_def split: option.splits sum.splits)
next
  assume w: "py_split wave_type = [p_type, s_type]"
  let ?res = "process_arrival l2d stations wave_type p_type dx dy dz nx ny evn origin eb arr st"
  from process_arrival_cases [of l2d stations wave_type p_type dx dy dz nx ny evn origin eb arr st]
  consider (same) "fst ?res = st"
    | (emit) row where "phase arr \<in> set (py_split wave_type)"
        "P_or_S row = (if phase arr = p_type then 1 else 2)"
        "?res = (if phase arr = p_type then st\<lparr>p_rows := p_rows st @ [row]\<rparr>
                 else st\<lparr>s_rows := s_rows st @ [row]\<rparr>, None)"
    by (metis fst_conv arrival_row_simps(4))
  then show "fst ?res = st \<or>
       (\<exists>row. phase arr = p_type \<and> P_or_S row = 1 \<and> ?res = (st\<lparr>p_rows := p_rows st @ [row]\<rparr>, None)) \<or>
       (\<exists>row. phase arr = s_type \<and> P_or_S row = 2 \<and> ?res = (st\<lparr>s_rows := s_rows st @ [row]\<rparr>, None))"
  proof cases
    case same
    then show ?thesis by simp
  next
    case emit
    show ?thesis
    proof (cases "phase arr = p_type")
      case True
      with emit show ?thesis by auto
    next
      case False
      with emit(1) w have "phase arr = s_type" by simp
      with False emit show ?thesis by auto
    qed
  qed
qed


theorem rows_blocks_and_phase_code_witness:
  "list_all (\<lambda>r. 0 < source_block r \<and> 0 < station_block r)
     (p_rows (fst (process_many_events (\<lambda>a b c d. 0) [ex_event 10000] 1440 720 25 ex_stations ''P S'')) @
      s_rows (fst (process_many_events (\<lambda>a b c d. 0) [ex_event 10000] 1440 720 25 ex_stations ''P S''))) \<and>
   list_all (\<lambda>r. P_or_S r = 1)
     (p_rows (fst (process_many_events (\<lambda>a b c d. 0) [ex_event 10000] 1440 720 25 ex_stations ''P S''))) \<and>
   map source_block
     (p_rows (fst (process_many_events (\<lambda>a b c d. 0) [ex_event 10000] 1440 720 25 ex_stations ''P S''))) =
     [415354121]"
proof -
  have g: "(0::int) < 1440 \<and> (0::int) < 720 \<and> (0::real) < 25" by simp
  have h1: "\<forall>e\<in>set [ex_event 10000]. \<forall>origin. preferred_origin e = Some origin \<longrightarrow>
       latitude origin \<le> 90 \<and> - 360 < longitude origin \<and> 0 \<le> depth origin"
    by (auto simp: ex_event_def ex_origin_def)
  have h2: "\<forall>code sta. ex_stations code = Some sta \<longrightarrow>
       sta_latitude sta \<le> 90 \<and> - 360 < sta_longitude sta"
    by (auto simp: ex_stations_def split: if_splits)
  have v: "map source_block
     (p_rows (fst (process_many_events (\<lambda>a b c d. 0) [ex_event 10000] 1440 720 25 ex_stations ''P S''))) =
     [415354121]"
    by (simp add: run_defs py_split_PS)
  from rows_blocks_and_phase_code [where nx = 1440 and ny = 720 and dz = 25
      and events = "[ex_event 10000]" and stations = ex_stations and l2d = "\<lambda>a b c d. 0"
      and wave_type = "''P S''" and p_type = "''P''" and s_type = "''S''" and arr = ex_arrival
      and dx = "1 / 4" and dy = "1 / 4" and evn = 5000000 and origin = "ex_origin 10000"
      and eb = 415354121 and st = "\<lparr>p_rows = [], s_rows = []\<rparr>"]
    g h1 h2 v
  show ?thesis by blast
qed

end
